theory Spec2Isabelle
  imports Main "HOL-Library.Char_ord" "HOL-Library.List_Lexorder" "HOL-Library.Option_ord"
    "HOL-Library.Log_Nat"
begin

section \<open>Persistent store (lib/database.ts)\<close>

text \<open>
  The SQLite tables are lists of rows, in insertion order. Numbers are \<open>int\<close>, text is
  \<open>string\<close>, a nullable column is an \<open>option\<close>. Foreign keys are declared in the
  schema but SQLite does not enforce them unless asked to, and the code never asks, so
  the model has none. A failing statement (a violated UNIQUE constraint) rejects the
  promise: the operation returns \<open>None\<close>.
\<close>

datatype UserRole = PATIENT | DOCTOR | ADMIN | QUALITY

datatype ConversationType = ONE_TO_ONE | ONE_TO_MANY

datatype ConversationStatus = ACTIVE | READ_ONLY | ARCHIVED

record User =
  u_id :: int
  u_email :: string
  u_password_hash :: string
  u_role :: UserRole
  u_display_name :: string
  u_created_at :: string

record Conversation =
  c_id :: int
  c_title :: string
  c_type :: ConversationType
  c_creator_id :: int
  c_status :: ConversationStatus
  c_thread_id :: string
  c_assigned_doctor_id :: "int option"
  c_created_at :: string

record ParticipantRow =
  cp_id :: int
  cp_conversation_id :: int
  cp_user_id :: int
  cp_joined_at :: string

record MetadataRow =
  cm_id :: int
  cm_conversation_id :: int
  cm_key :: string
  cm_value :: string

record Attachment =
  a_id :: int
  a_conversation_id :: int
  a_uploader_id :: int
  a_original_filename :: string
  a_stored_filename :: string
  a_file_size :: int
  a_file_type :: string
  a_blob_url :: string
  a_container_name :: string
  a_created_at :: string

text \<open>
  Every table has an \<open>INTEGER PRIMARY KEY AUTOINCREMENT\<close>; the \<open>seq_\<close> fields are the
  rows of \<open>sqlite_sequence\<close> (the largest id the table ever held).
\<close>

record Database =
  users :: "User list"
  conversations :: "Conversation list"
  conversation_participants :: "ParticipantRow list"
  conversation_metadata :: "MetadataRow list"
  attachments :: "Attachment list"
  seq_users :: int
  seq_conversations :: int
  seq_participants :: int
  seq_metadata :: int
  seq_attachments :: int

text \<open>The id AUTOINCREMENT gives a new row: one more than every id held so far.\<close>

definition lastID :: "int \<Rightarrow> int list \<Rightarrow> int" where
  "lastID seq ids = fold max ids seq + 1"

text \<open>\<open>db.get\<close>: the first row of the result, or null.\<close>

definition db_get :: "'a list \<Rightarrow> 'a option" where
  "db_get rows = (case rows of [] \<Rightarrow> None | r # _ \<Rightarrow> Some r)"

definition getUserByEmail :: "Database \<Rightarrow> string \<Rightarrow> User option" where
  "getUserByEmail db email = db_get (filter (\<lambda>u. u_email u = email) (users db))"

definition getUserById :: "Database \<Rightarrow> int \<Rightarrow> User option" where
  "getUserById db i = db_get (filter (\<lambda>u. u_id u = i) (users db))"

text \<open>
  \<open>createUser\<close>: \<open>hashSync\<close> is bcrypt (salted, so a parameter), \<open>now\<close> is
  CURRENT_TIMESTAMP. The email column is UNIQUE; the role CHECK holds for every value of
  the enum.
\<close>

definition createUser ::
  "(string \<Rightarrow> string) \<Rightarrow> string \<Rightarrow> Database \<Rightarrow> string \<Rightarrow> string \<Rightarrow> UserRole \<Rightarrow> string
    \<Rightarrow> (int \<times> Database) option" where
  "createUser hashSync now db email password role displayName =
     (if \<exists>u \<in> set (users db). u_email u = email then None
      else
        let i = lastID (seq_users db) (map u_id (users db));
            row = \<lparr>u_id = i, u_email = email, u_password_hash = hashSync password,
                   u_role = role, u_display_name = displayName, u_created_at = now\<rparr>
        in Some (i, db\<lparr>users := users db @ [row], seq_users := i\<rparr>))"

definition createConversation ::
  "string \<Rightarrow> Database \<Rightarrow> string \<Rightarrow> ConversationType \<Rightarrow> int \<Rightarrow> string \<Rightarrow> int option
    \<Rightarrow> (int \<times> Database) option" where
  "createConversation now db title type creatorId threadId assignedDoctorId =
     (if \<exists>c \<in> set (conversations db). c_thread_id c = threadId then None
      else
        let i = lastID (seq_conversations db) (map c_id (conversations db));
            row = \<lparr>c_id = i, c_title = title, c_type = type, c_creator_id = creatorId,
                   c_status = ACTIVE, c_thread_id = threadId,
                   c_assigned_doctor_id = assignedDoctorId, c_created_at = now\<rparr>
        in Some (i, db\<lparr>conversations := conversations db @ [row], seq_conversations := i\<rparr>))"

definition getConversationById :: "Database \<Rightarrow> int \<Rightarrow> Conversation option" where
  "getConversationById db i = db_get (filter (\<lambda>c. c_id c = i) (conversations db))"

definition insert_participant :: "string \<Rightarrow> Database \<Rightarrow> int \<Rightarrow> int \<Rightarrow> Database" where
  "insert_participant now db conversationId userId =
     (let i = lastID (seq_participants db) (map cp_id (conversation_participants db));
          row = \<lparr>cp_id = i, cp_conversation_id = conversationId, cp_user_id = userId,
                 cp_joined_at = now\<rparr>
      in db\<lparr>conversation_participants := conversation_participants db @ [row],
            seq_participants := i\<rparr>)"

definition is_participant :: "Database \<Rightarrow> int \<Rightarrow> int \<Rightarrow> bool" where
  "is_participant db conversationId userId =
     (\<exists>cp \<in> set (conversation_participants db).
        cp_conversation_id cp = conversationId \<and> cp_user_id cp = userId)"

text \<open>
  \<open>INSERT OR IGNORE\<close>: a row that breaks UNIQUE(conversation_id, user_id) is dropped.
  SQLite draws the id before it checks the constraint, so the dropped row still moves the
  counter of the table.
\<close>

definition addParticipantToConversation :: "string \<Rightarrow> Database \<Rightarrow> int \<Rightarrow> int \<Rightarrow> Database" where
  "addParticipantToConversation now db conversationId userId =
     (if is_participant db conversationId userId then
        db\<lparr>seq_participants :=
             lastID (seq_participants db) (map cp_id (conversation_participants db))\<rparr>
      else insert_participant now db conversationId userId)"

text \<open>A plain \<open>INSERT\<close>: the same row rejects.\<close>

definition addConversationParticipant ::
  "string \<Rightarrow> Database \<Rightarrow> int \<Rightarrow> int \<Rightarrow> Database option" where
  "addConversationParticipant now db conversationId userId =
     (if is_participant db conversationId userId then None
      else Some (insert_participant now db conversationId userId))"

definition addConversationMetadata :: "Database \<Rightarrow> int \<Rightarrow> string \<Rightarrow> string \<Rightarrow> Database" where
  "addConversationMetadata db conversationId k v =
     (let i = lastID (seq_metadata db) (map cm_id (conversation_metadata db));
          row = \<lparr>cm_id = i, cm_conversation_id = conversationId, cm_key = k, cm_value = v\<rparr>
      in db\<lparr>conversation_metadata := conversation_metadata db @ [row], seq_metadata := i\<rparr>)"

text \<open>
  \<open>getConversationParticipants\<close>: the join of users with the participant rows of the
  conversation. SQL fixes no order for the result; SQLite walks the index of
  UNIQUE(conversation_id, user_id), so the rows come by ascending user id.
\<close>

definition getConversationParticipants :: "Database \<Rightarrow> int \<Rightarrow> User list" where
  "getConversationParticipants db conversationId =
     concat (map (\<lambda>cp. filter (\<lambda>u. u_id u = cp_user_id cp) (users db))
                 (sort_key cp_user_id
                    (filter (\<lambda>cp. cp_conversation_id cp = conversationId)
                            (conversation_participants db))))"

text \<open>
  \<open>ORDER BY created_at DESC\<close> on the text column. SQL leaves the order of equal keys
  open; SQLite's sorter keeps them in the order of the scan.
\<close>

definition order_by_created_at_desc :: "Conversation list \<Rightarrow> Conversation list" where
  "order_by_created_at_desc cs = rev (sort_key c_created_at (rev cs))"

definition getConversationsByUserId :: "Database \<Rightarrow> int \<Rightarrow> Conversation list" where
  "getConversationsByUserId db userId =
     order_by_created_at_desc
       (remdups (filter (\<lambda>c. c_creator_id c = userId \<or> is_participant db (c_id c) userId)
                        (conversations db)))"

definition getConversationsForDoctor :: "Database \<Rightarrow> int \<Rightarrow> Conversation list" where
  "getConversationsForDoctor db doctorId =
     order_by_created_at_desc
       (remdups (filter (\<lambda>c. (c_type c = ONE_TO_MANY \<and> c_assigned_doctor_id c = None)
                              \<or> c_assigned_doctor_id c = Some doctorId
                              \<or> is_participant db (c_id c) doctorId)
                        (conversations db)))"

definition getAllConversations :: "Database \<Rightarrow> Conversation list" where
  "getAllConversations db = order_by_created_at_desc (conversations db)"

text \<open>
  \<open>deleteConversation\<close> runs four statements inside \<open>db.serialize\<close>, one after the
  other. The statements are data, so that their order can be read off.
\<close>

datatype Statement =
    DELETE_FROM_conversation_participants int
  | DELETE_FROM_conversation_metadata int
  | DELETE_FROM_attachments int
  | DELETE_FROM_conversations int

fun db_run :: "Statement \<Rightarrow> Database \<Rightarrow> Database" where
  "db_run (DELETE_FROM_conversation_participants i) db =
     db\<lparr>conversation_participants :=
          filter (\<lambda>cp. cp_conversation_id cp \<noteq> i) (conversation_participants db)\<rparr>"
| "db_run (DELETE_FROM_conversation_metadata i) db =
     db\<lparr>conversation_metadata :=
          filter (\<lambda>cm. cm_conversation_id cm \<noteq> i) (conversation_metadata db)\<rparr>"
| "db_run (DELETE_FROM_attachments i) db =
     db\<lparr>attachments := filter (\<lambda>a. a_conversation_id a \<noteq> i) (attachments db)\<rparr>"
| "db_run (DELETE_FROM_conversations i) db =
     db\<lparr>conversations := filter (\<lambda>c. c_id c \<noteq> i) (conversations db)\<rparr>"

definition deleteConversation_statements :: "int \<Rightarrow> Statement list" where
  "deleteConversation_statements i =
     [DELETE_FROM_conversation_participants i,
      DELETE_FROM_conversation_metadata i,
      DELETE_FROM_attachments i,
      DELETE_FROM_conversations i]"

text \<open>
  \<open>db.serialize\<close>: the statements run one at a time, in the order they were queued.
  \<open>db_states\<close> is that run, the store after each statement; the database is left in the
  last of them.
\<close>

fun db_states :: "Statement list \<Rightarrow> Database \<Rightarrow> Database list" where
  "db_states [] db = []"
| "db_states (stmt # stmts) db = db_run stmt db # db_states stmts (db_run stmt db)"

definition db_serialize :: "Statement list \<Rightarrow> Database \<Rightarrow> Database" where
  "db_serialize stmts db = last (db # db_states stmts db)"

definition deleteConversation :: "Database \<Rightarrow> int \<Rightarrow> Database" where
  "deleteConversation db i = db_serialize (deleteConversation_statements i) db"

section \<open>Responses and authentication (lib/auth.ts)\<close>

text \<open>
  A response is its status code and its body: the JSON \<open>{message}\<close> from the middleware,
  \<open>{success: false, message}\<close> from a handler that fails, or the payload of a success;
  or the HTML page of Express's default error handler, which is no JSON.
\<close>

datatype 'a Body = Message string | Failure string | Success 'a | ErrorPage

type_synonym 'a Response = "nat \<times> 'a Body"

text \<open>What a middleware answers when it ends the request: \<open>res.status(s).json({message})\<close>.\<close>

type_synonym Rejection = "nat \<times> string"

definition rejected :: "Rejection \<Rightarrow> 'a Response" where
  "rejected r = (fst r, Message (snd r))"

text \<open>
  The payload of a session token. \<open>jwt.verify\<close> (signature and expiry) is a parameter
  \<open>verifyToken\<close>: it gives the decoded payload, or \<open>None\<close> where the source throws
  "Invalid token".
\<close>

record Claims =
  t_id :: int
  t_email :: string
  t_role :: UserRole
  t_display_name :: string

text \<open>JavaScript's \<open>s.split(c)\<close> for a separator of one character.\<close>

fun split :: "char \<Rightarrow> string \<Rightarrow> string list" where
  "split c [] = [[]]"
| "split c (x # xs) =
     (if x = c then [] # split c xs
      else (case split c xs of [] \<Rightarrow> [[x]] | y # ys \<Rightarrow> (x # y) # ys))"

text \<open>
  \<open>authHeader && authHeader.split(' ')[1]\<close>, read through \<open>!token\<close>: \<open>None\<close> when the
  header is missing, has no second piece, or the second piece is empty.
\<close>

definition bearer_token :: "string option \<Rightarrow> string option" where
  "bearer_token authHeader =
     (case authHeader of
        None \<Rightarrow> None
      | Some h \<Rightarrow>
          (case split CHR '' '' h of
             _ # t # _ \<Rightarrow> if t = [] then None else Some t
           | _ \<Rightarrow> None))"

definition authenticateToken ::
  "(string \<Rightarrow> Claims option) \<Rightarrow> Database \<Rightarrow> string option \<Rightarrow> Rejection + User" where
  "authenticateToken verifyToken db authHeader =
     (case bearer_token authHeader of
        None \<Rightarrow> Inl (401, ''Access token required'')
      | Some token \<Rightarrow>
          (case verifyToken token of
             None \<Rightarrow> Inl (403, ''Invalid token'')
           | Some decoded \<Rightarrow>
               (case getUserById db (t_id decoded) of
                  None \<Rightarrow> Inl (401, ''User not found'')
                | Some user \<Rightarrow> Inr user)))"

definition requireRole :: "UserRole list \<Rightarrow> User \<Rightarrow> Rejection option" where
  "requireRole roles user =
     (if u_role user \<notin> set roles then Some (403, ''Insufficient permissions'')
      else None)"

definition requirePatient :: "User \<Rightarrow> Rejection option" where
  "requirePatient = requireRole [PATIENT]"

definition requireDoctorOrAdmin :: "User \<Rightarrow> Rejection option" where
  "requireDoctorOrAdmin = requireRole [DOCTOR, ADMIN]"

definition requireAnyRole :: "User \<Rightarrow> Rejection option" where
  "requireAnyRole = requireRole [PATIENT, DOCTOR, ADMIN, QUALITY]"

section \<open>GET /auth/verify (routes/auth.ts)\<close>

definition get_auth_verify :: "(string \<Rightarrow> Claims option) \<Rightarrow> string option \<Rightarrow> Claims Response" where
  "get_auth_verify verifyToken authHeader =
     (case bearer_token authHeader of
        None \<Rightarrow> (401, Failure ''No token provided'')
      | Some token \<Rightarrow>
          (case verifyToken token of
             None \<Rightarrow> (401, Failure ''Invalid token'')
           | Some decoded \<Rightarrow>
               (200, Success \<lparr>t_id = t_id decoded, t_email = t_email decoded,
                              t_role = t_role decoded,
                              t_display_name = t_display_name decoded\<rparr>)))"

section \<open>Conversation routes\<close>

subsection \<open>GET /conversations\<close>

record ConversationDetails =
  cd_conversation :: Conversation
  cd_creator :: "(int \<times> string \<times> string) option"
  cd_assigned_doctor :: "(int \<times> string) option"
  cd_participants :: "(int \<times> string \<times> UserRole) list"

text \<open>\<open>conv.assigned_doctor_id ? ... : null\<close>: null and 0 are both falsy.\<close>

definition truthy_id :: "int option \<Rightarrow> int option" where
  "truthy_id x = (case x of None \<Rightarrow> None | Some i \<Rightarrow> if i = 0 then None else Some i)"

definition conversation_details :: "Database \<Rightarrow> Conversation \<Rightarrow> ConversationDetails" where
  "conversation_details db conv =
     \<lparr>cd_conversation = conv,
      cd_creator = map_option (\<lambda>u. (u_id u, u_display_name u, u_email u))
                     (getUserById db (c_creator_id conv)),
      cd_assigned_doctor =
        (case truthy_id (c_assigned_doctor_id conv) of
           None \<Rightarrow> None
         | Some d \<Rightarrow> map_option (\<lambda>u. (u_id u, u_display_name u)) (getUserById db d)),
      cd_participants = map (\<lambda>p. (u_id p, u_display_name p, u_role p))
                          (getConversationParticipants db (c_id conv))\<rparr>"

text \<open>
  The handler. \<open>conversations\<close> is declared without a value and assigned in three
  branches; \<open>conversations!.map\<close> on the undefined value throws a TypeError, which the
  \<open>catch\<close> turns into the 500 response.
\<close>

definition get_conversations_handler :: "Database \<Rightarrow> User \<Rightarrow> ConversationDetails list Response" where
  "get_conversations_handler db user =
     (let conversations =
            (if u_role user = PATIENT then Some (getConversationsByUserId db (u_id user))
             else if u_role user = DOCTOR then Some (getConversationsForDoctor db (u_id user))
             else if u_role user = ADMIN then Some (getAllConversations db)
             else None)
      in case conversations of
           None \<Rightarrow> (500, Failure ''Failed to get conversations'')
         | Some cs \<Rightarrow> (200, Success (map (conversation_details db) cs)))"

text \<open>The route: \<open>authenticateToken\<close>, \<open>requireAnyRole\<close>, then the handler.\<close>

definition get_conversations ::
  "(string \<Rightarrow> Claims option) \<Rightarrow> Database \<Rightarrow> string option \<Rightarrow> ConversationDetails list Response" where
  "get_conversations verifyToken db authHeader =
     (case authenticateToken verifyToken db authHeader of
        Inl r \<Rightarrow> rejected r
      | Inr user \<Rightarrow>
          (case requireAnyRole user of
             Some r \<Rightarrow> rejected r
           | None \<Rightarrow> get_conversations_handler db user))"

subsection \<open>DELETE /conversations/:id\<close>

text \<open>
  \<open>parseInt(req.params.id)\<close> is \<open>None\<close> for NaN. The response comes with the store the
  request leaves behind.
\<close>

definition delete_conversation_handler ::
  "Database \<Rightarrow> int option \<Rightarrow> string Response \<times> Database" where
  "delete_conversation_handler db conversationId =
     (case conversationId of
        None \<Rightarrow> ((400, Failure ''Invalid conversation ID''), db)
      | Some i \<Rightarrow>
          (case getConversationById db i of
             None \<Rightarrow> ((404, Failure ''Conversation not found''), db)
           | Some conversation \<Rightarrow>
               ((200, Success ''Conversation deleted successfully''),
                deleteConversation db i)))"

definition delete_conversation ::
  "(string \<Rightarrow> Claims option) \<Rightarrow> Database \<Rightarrow> string option \<Rightarrow> int option
    \<Rightarrow> string Response \<times> Database" where
  "delete_conversation verifyToken db authHeader conversationId =
     (case authenticateToken verifyToken db authHeader of
        Inl r \<Rightarrow> (rejected r, db)
      | Inr user \<Rightarrow>
          (case requireDoctorOrAdmin user of
             Some r \<Rightarrow> (rejected r, db)
           | None \<Rightarrow> delete_conversation_handler db conversationId))"

subsection \<open>POST /conversations\<close>

text \<open>
  The JSON body, typed as \<open>CreateConversationRequest\<close>; a missing field is \<open>None\<close>.
  \<open>type\<close> arrives as a string and is checked against the values of the enum.
\<close>

record CreateConversationRequest =
  req_title :: "string option"
  req_type :: "string option"
  req_assigned_doctor_id :: "int option"

text \<open>\<open>!s\<close> for a string that may be missing: undefined and the empty string are falsy.\<close>

definition truthy_string :: "string option \<Rightarrow> string option" where
  "truthy_string x = (case x of None \<Rightarrow> None | Some s \<Rightarrow> if s = [] then None else Some s)"

definition ConversationType_of :: "string \<Rightarrow> ConversationType option" where
  "ConversationType_of s =
     (if s = ''1to1'' then Some ONE_TO_ONE
      else if s = ''1toN'' then Some ONE_TO_MANY
      else None)"

text \<open>
  The check of the assigned doctor for a 1:1 conversation: the 400 message, or \<open>None\<close>
  when the request may go on.
\<close>

definition check_doctor_assignment :: "Database \<Rightarrow> ConversationType \<Rightarrow> int option \<Rightarrow> string option" where
  "check_doctor_assignment db type assigned_doctor_id =
     (if type = ONE_TO_ONE then
        (case truthy_id assigned_doctor_id of
           None \<Rightarrow> Some ''Doctor assignment required for 1:1 conversations''
         | Some d \<Rightarrow>
             (case getUserById db d of
                None \<Rightarrow> Some ''Invalid doctor assignment''
              | Some doctor \<Rightarrow>
                  if u_role doctor \<noteq> DOCTOR then Some ''Invalid doctor assignment''
                  else None))
      else None)"

text \<open>
  \<open>createThread\<close> is the result of the call to the chat service (\<open>None\<close> for
  undefined); a rejected INSERT is caught by the handler's \<open>catch\<close>.
\<close>

definition post_conversations_handler ::
  "string option \<Rightarrow> string \<Rightarrow> Database \<Rightarrow> User \<Rightarrow> CreateConversationRequest
    \<Rightarrow> (Conversation option \<times> string) Response \<times> Database" where
  "post_conversations_handler createThread now db user body =
     (case (truthy_string (req_title body), truthy_string (req_type body)) of
        (Some title, Some type_str) \<Rightarrow>
          (case ConversationType_of type_str of
             None \<Rightarrow> ((400, Failure ''Invalid conversation type''), db)
           | Some type \<Rightarrow>
               (case check_doctor_assignment db type (req_assigned_doctor_id body) of
                  Some msg \<Rightarrow> ((400, Failure msg), db)
                | None \<Rightarrow>
                    (case truthy_string createThread of
                       None \<Rightarrow> ((500, Failure ''Failed to create chat thread''), db)
                     | Some threadId \<Rightarrow>
                         (case createConversation now db title type (u_id user) threadId
                                 (req_assigned_doctor_id body) of
                            None \<Rightarrow> ((500, Failure ''Failed to create conversation''), db)
                          | Some (conversationId, db1) \<Rightarrow>
                              let db2 = addParticipantToConversation now db1 conversationId (u_id user);
                                  db3 = (case (type, truthy_id (req_assigned_doctor_id body)) of
                                           (ONE_TO_ONE, Some d) \<Rightarrow>
                                             addParticipantToConversation now db2 conversationId d
                                         | _ \<Rightarrow> db2)
                              in ((201, Success (getConversationById db3 conversationId, threadId)),
                                  db3)))))
      | _ \<Rightarrow> ((400, Failure ''Title and type are required''), db))"

definition post_conversations ::
  "(string \<Rightarrow> Claims option) \<Rightarrow> string option \<Rightarrow> string \<Rightarrow> Database \<Rightarrow> string option
    \<Rightarrow> CreateConversationRequest \<Rightarrow> (Conversation option \<times> string) Response \<times> Database" where
  "post_conversations verifyToken createThread now db authHeader body =
     (case authenticateToken verifyToken db authHeader of
        Inl r \<Rightarrow> (rejected r, db)
      | Inr user \<Rightarrow>
          (case requirePatient user of
             Some r \<Rightarrow> (rejected r, db)
           | None \<Rightarrow> post_conversations_handler createThread now db user body))"

section \<open>POST /auth/register (routes/auth.ts, AuthService.register)\<close>

subsection \<open>Regular expressions\<close>

text \<open>
  The fragment of regular expressions the email pattern needs, matched by derivatives.
  A string is a list of code units below 256.
\<close>

datatype regex =
    Nothing
  | Eps
  | Class "char \<Rightarrow> bool"
  | Seq regex regex
  | Alt regex regex
  | Star regex

definition OneOrMore :: "regex \<Rightarrow> regex" where
  "OneOrMore r = Seq r (Star r)"

fun nullable :: "regex \<Rightarrow> bool" where
  "nullable Nothing = False"
| "nullable Eps = True"
| "nullable (Class P) = False"
| "nullable (Seq r s) = (nullable r \<and> nullable s)"
| "nullable (Alt r s) = (nullable r \<or> nullable s)"
| "nullable (Star r) = True"

fun deriv :: "char \<Rightarrow> regex \<Rightarrow> regex" where
  "deriv c Nothing = Nothing"
| "deriv c Eps = Nothing"
| "deriv c (Class P) = (if P c then Eps else Nothing)"
| "deriv c (Seq r s) =
     (if nullable r then Alt (Seq (deriv c r) s) (deriv c s) else Seq (deriv c r) s)"
| "deriv c (Alt r s) = Alt (deriv c r) (deriv c s)"
| "deriv c (Star r) = Seq (deriv c r) (Star r)"

text \<open>\<open>/^r$/.test(s)\<close>: the whole string matches.\<close>

definition regex_test :: "regex \<Rightarrow> string \<Rightarrow> bool" where
  "regex_test r s = nullable (foldl (\<lambda>r c. deriv c r) r s)"

text \<open>\<open>\s\<close> on code units below 256: tab, LF, VT, FF, CR, space and the no-break space.\<close>

definition is_space :: "char \<Rightarrow> bool" where
  "is_space c = (of_char c \<in> {9, 10, 11, 12, 13, 32, 160 :: nat})"

text \<open>\<open>[^\s@]\<close>\<close>

definition not_space_at :: "char \<Rightarrow> bool" where
  "not_space_at c = (\<not> is_space c \<and> c \<noteq> CHR ''@'')"

text \<open>\<open>/^[^\s@]+@[^\s@]+\.[^\s@]+$/\<close>\<close>

definition emailRegex :: regex where
  "emailRegex =
     Seq (OneOrMore (Class not_space_at))
       (Seq (Class (\<lambda>c. c = CHR ''@''))
         (Seq (OneOrMore (Class not_space_at))
           (Seq (Class (\<lambda>c. c = CHR ''.''))
             (OneOrMore (Class not_space_at)))))"

subsection \<open>The Auth Service and the route\<close>

record RegisterRequest =
  req_email :: "string option"
  req_password :: "string option"
  req_role :: "string option"
  req_display_name :: "string option"

text \<open>\<open>Object.values(UserRole)\<close>, as a lookup from the string to the enum.\<close>

definition UserRole_of :: "string \<Rightarrow> UserRole option" where
  "UserRole_of s =
     (if s = ''patient'' then Some PATIENT
      else if s = ''doctor'' then Some DOCTOR
      else if s = ''admin'' then Some ADMIN
      else if s = ''quality'' then Some QUALITY
      else None)"

fun UserRole_value :: "UserRole \<Rightarrow> string" where
  "UserRole_value PATIENT = ''patient''"
| "UserRole_value DOCTOR = ''doctor''"
| "UserRole_value ADMIN = ''admin''"
| "UserRole_value QUALITY = ''quality''"

text \<open>The public fields of a user, as \<open>register\<close> and \<open>login\<close> return them.\<close>

record PublicUser =
  pu_id :: int
  pu_email :: string
  pu_role :: UserRole
  pu_display_name :: string

text \<open>\<open>AuthService.register\<close>: \<open>Inl\<close> is \<open>{success: false, message}\<close>.\<close>

definition register ::
  "(string \<Rightarrow> string) \<Rightarrow> string \<Rightarrow> Database \<Rightarrow> string \<Rightarrow> string \<Rightarrow> UserRole \<Rightarrow> string
    \<Rightarrow> (string + PublicUser) \<times> Database" where
  "register hashSync now db email password role displayName =
     (case getUserByEmail db email of
        Some existingUser \<Rightarrow> (Inl ''User already exists'', db)
      | None \<Rightarrow>
          (case createUser hashSync now db email password role displayName of
             None \<Rightarrow> (Inl ''Registration failed'', db)
           | Some (userId, db') \<Rightarrow>
               (case getUserById db' userId of
                  None \<Rightarrow> (Inl ''Failed to create user'', db')
                | Some user \<Rightarrow>
                    (Inr \<lparr>pu_id = u_id user, pu_email = u_email user, pu_role = u_role user,
                          pu_display_name = u_display_name user\<rparr>, db'))))"

definition post_auth_register ::
  "(string \<Rightarrow> string) \<Rightarrow> string \<Rightarrow> Database \<Rightarrow> RegisterRequest \<Rightarrow> PublicUser Response \<times> Database" where
  "post_auth_register hashSync now db body =
     (case (truthy_string (req_email body), truthy_string (req_password body),
            truthy_string (req_role body), truthy_string (req_display_name body)) of
        (Some email, Some password, Some role_str, Some display_name) \<Rightarrow>
          (case UserRole_of role_str of
             None \<Rightarrow> ((400, Failure ''Invalid role''), db)
           | Some role \<Rightarrow>
               if \<not> regex_test emailRegex email then ((400, Failure ''Invalid email format''), db)
               else if length password < 6 then
                 ((400, Failure ''Password must be at least 6 characters long''), db)
               else
                 (case register hashSync now db email password role display_name of
                    (Inr user, db') \<Rightarrow> ((201, Success user), db')
                  | (Inl msg, db') \<Rightarrow> ((400, Failure msg), db')))
      | _ \<Rightarrow> ((400, Failure ''All fields are required''), db))"

section \<open>POST /attachments/upload/:conversationId (routes/attachments.ts)\<close>

definition ALLOWED_FILE_TYPES :: "string list" where
  "ALLOWED_FILE_TYPES =
     [''image/jpeg'',
      ''image/jpg'',
      ''image/png'',
      ''image/gif'',
      ''application/pdf'',
      ''application/msword'',
      ''application/vnd.openxmlformats-officedocument.wordprocessingml.document'',
      ''text/plain'',
      ''text/csv'',
      ''application/vnd.ms-excel'',
      ''application/vnd.openxmlformats-officedocument.spreadsheetml.sheet'',
      ''audio/mpeg'',
      ''audio/wav'',
      ''audio/ogg'',
      ''audio/mp3'',
      ''audio/webm'',
      ''audio/mp4'']"

definition MAX_FILE_SIZE :: int where
  "MAX_FILE_SIZE = 50 * 1024 * 1024"

text \<open>
  The file of the multipart body, and \<open>req.file\<close> as the handler reads it (the bytes
  themselves play no part).
\<close>

record UploadedFile =
  originalname :: string
  mimetype :: string
  size_bytes :: int

text \<open>
  \<open>upload.single('file')\<close> of \<open>multer({limits: {fileSize: 50 * 1024 * 1024}})\<close> runs
  before the handler. multer is a library, so the middleware is a parameter
  \<open>upload_single\<close>: from the file of the request (if any) it gives \<open>req.file\<close>, or the
  error it passes to \<open>next\<close>. \<open>multer_limits_fileSize\<close> is what its documentation says
  of the limit: \<open>fileSize\<close> is the largest size a file may have, and a larger file is
  refused with the error LIMIT_FILE_SIZE.
\<close>

datatype MulterError = LIMIT_FILE_SIZE

definition upload_limits_fileSize :: int where
  "upload_limits_fileSize = 50 * 1024 * 1024"

definition multer_limits_fileSize ::
  "int \<Rightarrow> (UploadedFile option \<Rightarrow> MulterError + UploadedFile option) \<Rightarrow> bool" where
  "multer_limits_fileSize fileSize upload_single \<longleftrightarrow>
     upload_single None = Inr None
     \<and> (\<forall>file. upload_single (Some file)
           = (if size_bytes file > fileSize then Inl LIMIT_FILE_SIZE else Inr (Some file)))"

text \<open>
  An error passed to \<open>next\<close> goes to the error handlers of the application. \<open>app.ts\<close>
  installs none, so Express's default handler answers: the status is \<open>err.status\<close> or
  \<open>err.statusCode\<close>, which a MulterError does not have, and so 500, with an HTML page.
\<close>

definition default_error_handler :: "MulterError \<Rightarrow> 'a Response" where
  "default_error_handler err = (500, ErrorPage)"

text \<open>
  What the blob store does with the request: the connection string is not configured,
  the upload (or the SAS URL) throws, or the blob is stored and its SAS URL comes back.
\<close>

datatype BlobStorage = NotConfigured | UploadThrows | Stored string

text \<open>Decimal digits of a number, for \<open>`conversation-${conversationId}`\<close> and \<open>toString()\<close>.\<close>

fun string_of_nat :: "nat \<Rightarrow> string" where
  "string_of_nat n =
     (if n < 10 then [char_of (48 + n)]
      else string_of_nat (n div 10) @ [char_of (48 + n mod 10)])"

declare string_of_nat.simps [simp del]

definition string_of_int :: "int \<Rightarrow> string" where
  "string_of_int i = (if i < 0 then CHR ''-'' # string_of_nat (nat (- i)) else string_of_nat (nat i))"

definition createAttachment ::
  "string \<Rightarrow> Database \<Rightarrow> int \<Rightarrow> int \<Rightarrow> string \<Rightarrow> string \<Rightarrow> int \<Rightarrow> string \<Rightarrow> string \<Rightarrow> string
    \<Rightarrow> int \<times> Database" where
  "createAttachment now db conversationId uploaderId originalFilename storedFilename fileSize
     fileType blobUrl containerName =
     (let i = lastID (seq_attachments db) (map a_id (attachments db));
          row = \<lparr>a_id = i, a_conversation_id = conversationId, a_uploader_id = uploaderId,
                 a_original_filename = originalFilename, a_stored_filename = storedFilename,
                 a_file_size = fileSize, a_file_type = fileType, a_blob_url = blobUrl,
                 a_container_name = containerName, a_created_at = now\<rparr>
      in (i, db\<lparr>attachments := attachments db @ [row], seq_attachments := i\<rparr>))"

text \<open>The \<open>attachment\<close> object of the 201 response.\<close>

record UploadedAttachment =
  ua_id :: int
  ua_conversation_id :: int
  ua_original_filename :: string
  ua_file_size :: int
  ua_file_type :: string
  ua_uploader_name :: string
  ua_created_at :: string

definition hasAccess :: "Database \<Rightarrow> User \<Rightarrow> int \<Rightarrow> Conversation \<Rightarrow> bool" where
  "hasAccess db user conversationId conversation =
     (u_role user = ADMIN
      \<or> (\<exists>p \<in> set (getConversationParticipants db conversationId). u_id p = u_id user)
      \<or> c_creator_id conversation = u_id user
      \<or> (u_role user = DOCTOR \<and> c_assigned_doctor_id conversation = Some (u_id user)))"

text \<open>
  The handler, which runs once \<open>upload.single('file')\<close> has put the file (if any) on the
  request.
  \<open>storedFilename\<close> is the generated name (clock, random digits and the extension of the
  original name); \<open>isoNow\<close> is \<open>new Date().toISOString()\<close>.
\<close>

definition upload_handler ::
  "BlobStorage \<Rightarrow> string \<Rightarrow> string \<Rightarrow> string \<Rightarrow> Database \<Rightarrow> User \<Rightarrow> int option
    \<Rightarrow> UploadedFile option \<Rightarrow> UploadedAttachment Response \<times> Database" where
  "upload_handler storage storedFilename now isoNow db user conversationId fileData =
     (case conversationId of
        None \<Rightarrow> ((400, Failure ''Invalid conversation ID''), db)
      | Some cid \<Rightarrow>
          (case fileData of
             None \<Rightarrow> ((400, Failure ''No file provided''), db)
           | Some file \<Rightarrow>
               if size_bytes file > MAX_FILE_SIZE then
                 ((400, Failure ''File size exceeds 50MB limit''), db)
               else if mimetype file \<notin> set ALLOWED_FILE_TYPES then
                 ((400, Failure ''File type not allowed''), db)
               else
                 (case getConversationById db cid of
                    None \<Rightarrow> ((404, Failure ''Conversation not found''), db)
                  | Some conversation \<Rightarrow>
                      if \<not> hasAccess db user cid conversation then
                        ((403, Failure ''Access denied''), db)
                      else
                        (case storage of
                           NotConfigured \<Rightarrow>
                             ((500, Failure ''Azure Blob Storage not configured''), db)
                         | UploadThrows \<Rightarrow> ((500, Failure ''Failed to upload file''), db)
                         | Stored sasUrl \<Rightarrow>
                             (case createAttachment now db cid (u_id user) (originalname file)
                                     storedFilename (size_bytes file) (mimetype file) sasUrl
                                     (''conversation-'' @ string_of_int cid) of
                                (attachmentId, db') \<Rightarrow>
                                  ((201, Success
                                      \<lparr>ua_id = attachmentId, ua_conversation_id = cid,
                                       ua_original_filename = originalname file,
                                       ua_file_size = size_bytes file,
                                       ua_file_type = mimetype file,
                                       ua_uploader_name = u_display_name user,
                                       ua_created_at = isoNow\<rparr>), db'))))))"

text \<open>
  The route: \<open>authenticateToken\<close>, \<open>requireAnyRole\<close>, \<open>upload.single('file')\<close>, then the
  handler. \<open>file\<close> is the file of the multipart body.
\<close>

definition post_attachments_upload ::
  "(string \<Rightarrow> Claims option) \<Rightarrow> (UploadedFile option \<Rightarrow> MulterError + UploadedFile option)
    \<Rightarrow> BlobStorage \<Rightarrow> string \<Rightarrow> string \<Rightarrow> string \<Rightarrow> Database
    \<Rightarrow> string option \<Rightarrow> int option \<Rightarrow> UploadedFile option
    \<Rightarrow> UploadedAttachment Response \<times> Database" where
  "post_attachments_upload verifyToken upload_single storage storedFilename now isoNow db
     authHeader conversationId file =
     (case authenticateToken verifyToken db authHeader of
        Inl r \<Rightarrow> (rejected r, db)
      | Inr user \<Rightarrow>
          (case requireAnyRole user of
             Some r \<Rightarrow> (rejected r, db)
           | None \<Rightarrow>
               (case upload_single file of
                  Inl err \<Rightarrow> (default_error_handler err, db)
                | Inr fileData \<Rightarrow>
                    upload_handler storage storedFilename now isoNow db user conversationId
                      fileData)))"

section \<open>Import of conversation bundles (routes/import.ts)\<close>

record ImportParticipant =
  ip_id :: string
  ip_username :: string
  ip_display_name :: string
  ip_email :: string
  ip_role :: string

record ImportMessage =
  im_id :: string
  im_content :: string
  im_sender_id :: string
  im_sender_display_name :: string
  im_created_on :: string
  im_type :: string

text \<open>
  \<open>ImportConversationData\<close>, as parsed JSON: the fields the routine tests for presence
  are options.
\<close>

record ImportConversationData =
  icd_source :: "string option"
  icd_source_id :: "string option"
  icd_title :: "string option"
  icd_type :: string
  icd_participants :: "ImportParticipant list option"
  icd_messages :: "ImportMessage list option"
  icd_created_at :: string
  icd_exported_at :: string
  icd_message_count :: "int option"

record ImportResults =
  successful :: nat
  failed :: nat
  errors :: "(string \<times> string) list"
  createdUsers :: "(string \<times> UserRole) list"
  skippedUsers :: "(string \<times> string) list"

text \<open>
  What the routine takes from outside: bcrypt, the random temporary passwords and the
  chat service's \<open>createThread\<close> (both by the number of the external call), and the clock.
\<close>

record ImportEnv =
  env_hashSync :: "string \<Rightarrow> string"
  env_generateTempPassword :: "nat \<Rightarrow> string"
  env_createThread :: "nat \<Rightarrow> string option"
  env_now :: string
  env_isoNow :: string

record ImportState =
  st_db :: Database
  st_results :: ImportResults
  st_calls :: nat

text \<open>\<open>toLowerCase\<close> on code units below 256.\<close>

definition toLowerCase_char :: "char \<Rightarrow> char" where
  "toLowerCase_char c =
     (let n = (of_char c :: nat)
      in if (65 \<le> n \<and> n \<le> 90) \<or> (192 \<le> n \<and> n \<le> 222 \<and> n \<noteq> 215) then char_of (n + 32)
         else c)"

definition toLowerCase :: "string \<Rightarrow> string" where
  "toLowerCase s = map toLowerCase_char s"

fun startsWith :: "string \<Rightarrow> string \<Rightarrow> bool" where
  "startsWith s [] = True"
| "startsWith [] (p # ps) = False"
| "startsWith (x # xs) (p # ps) = (x = p \<and> startsWith xs ps)"

fun str_includes :: "string \<Rightarrow> string \<Rightarrow> bool" where
  "str_includes [] p = (p = [])"
| "str_includes (x # xs) p = (startsWith (x # xs) p \<or> str_includes xs p)"

definition mapRole :: "string \<Rightarrow> UserRole" where
  "mapRole role =
     (let roleStr = toLowerCase role
      in if str_includes roleStr ''admin'' then ADMIN
         else if str_includes roleStr ''doctor'' \<or> str_includes roleStr ''dr'' then DOCTOR
         else if str_includes roleStr ''quality'' then QUALITY
         else PATIENT)"

definition push_skipped :: "string \<times> string \<Rightarrow> ImportState \<Rightarrow> ImportState" where
  "push_skipped e st =
     st\<lparr>st_results := (st_results st)\<lparr>skippedUsers := skippedUsers (st_results st) @ [e]\<rparr>\<rparr>"

definition push_created :: "string \<times> UserRole \<Rightarrow> ImportState \<Rightarrow> ImportState" where
  "push_created e st =
     st\<lparr>st_results := (st_results st)\<lparr>createdUsers := createdUsers (st_results st) @ [e]\<rparr>\<rparr>"

definition push_failed :: "string \<times> string \<Rightarrow> ImportState \<Rightarrow> ImportState" where
  "push_failed e st =
     st\<lparr>st_results := (st_results st)\<lparr>failed := Suc (failed (st_results st)),
                                      errors := errors (st_results st) @ [e]\<rparr>\<rparr>"

text \<open>
  The \<open>try\<close> block of the participant loop up to \<open>if (existingUser)\<close>: find the user by
  email or create it, and record which. The result is \<open>existingUser\<close>; a rejected
  \<open>createUser\<close> lands in the \<open>catch\<close>, which records the email as skipped.
\<close>

definition find_or_create_user ::
  "ImportEnv \<Rightarrow> ImportState \<Rightarrow> ImportParticipant \<Rightarrow> User option \<times> ImportState" where
  "find_or_create_user env st participant =
     (case getUserByEmail (st_db st) (ip_email participant) of
        Some existingUser \<Rightarrow>
          (Some existingUser, push_skipped (ip_email participant, ''User already exists'') st)
      | None \<Rightarrow>
          (let tempPassword = env_generateTempPassword env (st_calls st);
               st1 = st\<lparr>st_calls := Suc (st_calls st)\<rparr>;
               role = mapRole (ip_role participant)
           in case createUser (env_hashSync env) (env_now env) (st_db st) (ip_email participant)
                     tempPassword role (ip_display_name participant) of
                None \<Rightarrow>
                  (None, push_skipped (ip_email participant, ''Failed to create/find user'') st1)
              | Some (userId, db') \<Rightarrow>
                  (getUserById db' userId,
                   push_created (ip_email participant, role) (st1\<lparr>st_db := db'\<rparr>))))"

text \<open>
  The participant loop: \<open>participantUserIds\<close>, \<open>doctorId\<close> and the state go round.
\<close>

fun participant_loop ::
  "ImportEnv \<Rightarrow> ImportParticipant list \<Rightarrow> int list \<times> int option \<times> ImportState
    \<Rightarrow> int list \<times> int option \<times> ImportState" where
  "participant_loop env [] acc = acc"
| "participant_loop env (participant # rest) (participantUserIds, doctorId, st) =
     (case find_or_create_user env st participant of
        (None, st') \<Rightarrow> participant_loop env rest (participantUserIds, doctorId, st')
      | (Some existingUser, st') \<Rightarrow>
          participant_loop env rest
            (participantUserIds @ [u_id existingUser],
             (if u_role existingUser = DOCTOR then Some (u_id existingUser) else doctorId),
             st'))"

text \<open>Adding the participants: each failure is caught and the loop goes on.\<close>

fun add_participants :: "string \<Rightarrow> int \<Rightarrow> int list \<Rightarrow> Database \<Rightarrow> Database" where
  "add_participants now conversationId [] db = db"
| "add_participants now conversationId (participantId # rest) db =
     (case addConversationParticipant now db conversationId participantId of
        None \<Rightarrow> add_participants now conversationId rest db
      | Some db' \<Rightarrow> add_participants now conversationId rest db')"

text \<open>\<open>x || d\<close> on a string that may be missing.\<close>

definition or_else :: "string option \<Rightarrow> string \<Rightarrow> string" where
  "or_else x d = (case truthy_string x of None \<Rightarrow> d | Some s \<Rightarrow> s)"

definition add_import_metadata ::
  "ImportEnv \<Rightarrow> int \<Rightarrow> int \<Rightarrow> ImportConversationData \<Rightarrow> nat \<Rightarrow> Database \<Rightarrow> Database" where
  "add_import_metadata env importerId conversationId convData n_messages db =
     (let db1 = addConversationMetadata db conversationId ''imported_from''
                  (or_else (icd_source convData) ''unknown'');
          db2 = addConversationMetadata db1 conversationId ''source_id''
                  (or_else (icd_source_id convData) []);
          db3 = addConversationMetadata db2 conversationId ''original_message_count''
                  (case icd_message_count convData of
                     Some n \<Rightarrow> string_of_int n
                   | None \<Rightarrow> string_of_nat n_messages);
          db4 = addConversationMetadata db3 conversationId ''imported_at'' (env_isoNow env)
      in addConversationMetadata db4 conversationId ''imported_by'' (string_of_int importerId))"

text \<open>\<open>convData.type === '1to1' ? ConversationType.ONE_TO_ONE : ConversationType.ONE_TO_MANY\<close>\<close>

definition import_conversation_type :: "string \<Rightarrow> ConversationType" where
  "import_conversation_type t = (if t = ''1to1'' then ONE_TO_ONE else ONE_TO_MANY)"

text \<open>
  The body of the outer loop for one bundle, in three parts. Last part: the conversation
  row, its participants and its metadata. A rejected \<open>createConversation\<close> is caught by
  the outer \<open>catch\<close>, which reports SQLite's message.
\<close>

definition store_conversation ::
  "ImportEnv \<Rightarrow> int \<Rightarrow> ImportConversationData \<Rightarrow> string \<Rightarrow> nat \<Rightarrow> int list \<Rightarrow> int option
    \<Rightarrow> int \<Rightarrow> string \<Rightarrow> ImportState \<Rightarrow> ImportState" where
  "store_conversation env importerId convData title n_messages participantUserIds doctorId
     creatorId threadId st2 =
     (case createConversation (env_now env) (st_db st2) title
             (import_conversation_type (icd_type convData)) creatorId threadId doctorId of
        None \<Rightarrow>
          push_failed
            (title, ''SQLITE_CONSTRAINT: UNIQUE constraint failed: conversations.thread_id'') st2
      | Some (conversationId, db1) \<Rightarrow>
          st2\<lparr>st_db := add_import_metadata env importerId conversationId convData n_messages
                          (add_participants (env_now env) conversationId participantUserIds db1),
               st_results := (st_results st2)
                 \<lparr>successful := Suc (successful (st_results st2))\<rparr>\<rparr>)"

text \<open>
  Middle part, after the participant loop: no participant, no conversation; otherwise
  the chat thread is created and the first participant is the creator.
\<close>

fun after_participants ::
  "ImportEnv \<Rightarrow> int \<Rightarrow> ImportConversationData \<Rightarrow> string \<Rightarrow> nat
    \<Rightarrow> int list \<times> int option \<times> ImportState \<Rightarrow> ImportState" where
  "after_participants env importerId convData title n_messages ([], doctorId, st1) =
     push_failed (title, ''No valid participants found'') st1"
| "after_participants env importerId convData title n_messages (creatorId # rest, doctorId, st1) =
     (case truthy_string (env_createThread env (st_calls st1)) of
        None \<Rightarrow>
          push_failed (title, ''Failed to create chat thread'')
            (st1\<lparr>st_calls := Suc (st_calls st1)\<rparr>)
      | Some threadId \<Rightarrow>
          store_conversation env importerId convData title n_messages (creatorId # rest)
            doctorId creatorId threadId (st1\<lparr>st_calls := Suc (st_calls st1)\<rparr>))"

text \<open>First part: the check of the required fields, then the participant loop.\<close>

definition import_conversation ::
  "ImportEnv \<Rightarrow> int \<Rightarrow> ImportState \<Rightarrow> ImportConversationData \<Rightarrow> ImportState" where
  "import_conversation env importerId st convData =
     (case (truthy_string (icd_title convData), icd_participants convData, icd_messages convData) of
        (Some title, Some participants, Some messages) \<Rightarrow>
          after_participants env importerId convData title (length messages)
            (participant_loop env participants ([], None, st))
      | _ \<Rightarrow>
          push_failed
            (or_else (icd_title convData) (or_else (icd_source_id convData) ''Unknown''),
             ''Missing required fields (title, participants, or messages)'') st)"

definition no_results :: ImportResults where
  "no_results = \<lparr>successful = 0, failed = 0, errors = [], createdUsers = [], skippedUsers = []\<rparr>"

text \<open>
  \<open>importConversations\<close>: the results and the store it leaves. \<open>calls\<close> is the number of
  external calls made before the run.
\<close>

definition importConversations ::
  "ImportEnv \<Rightarrow> nat \<Rightarrow> Database \<Rightarrow> ImportConversationData list \<Rightarrow> int \<Rightarrow> ImportResults \<times> Database" where
  "importConversations env calls db convs importerId =
     (let st = foldl (import_conversation env importerId)
                 \<lparr>st_db = db, st_results = no_results, st_calls = calls\<rparr> convs
      in (st_results st, st_db st))"

section \<open>RocketChat pagination (lib/rocketchat-exporter.ts)\<close>













section \<open>What an import does to the users\<close>

text \<open>
  What a run does to the users, seen from outside: the emails of the users table, and the
  created and skipped lists of the results.
\<close>

type_synonym UserView = "string list \<times> (string \<times> UserRole) list \<times> (string \<times> string) list"

definition user_view :: "ImportState \<Rightarrow> UserView" where
  "user_view st =
     (map u_email (users (st_db st)), createdUsers (st_results st), skippedUsers (st_results st))"

text \<open>
  One round of the participant loop on that view: an email the table holds is skipped, any
  other is added to the table and recorded as created.
\<close>

fun participant_step :: "ImportParticipant \<Rightarrow> UserView \<Rightarrow> UserView" where
  "participant_step p (emails, created, skipped) =
     (if ip_email p \<in> set emails then
        (emails, created, skipped @ [(ip_email p, ''User already exists'')])
      else (emails @ [ip_email p], created @ [(ip_email p, mapRole (ip_role p))], skipped))"

text \<open>The participants the routine goes through for a bundle: none when a required field is missing.\<close>

definition bundle_participants :: "ImportConversationData \<Rightarrow> ImportParticipant list" where
  "bundle_participants convData =
     (case (truthy_string (icd_title convData), icd_participants convData, icd_messages convData) of
        (Some title, Some participants, Some messages) \<Rightarrow> participants
      | _ \<Rightarrow> [])"

text \<open>The participants of a whole run, in the order the routine meets them.\<close>

definition all_participants :: "ImportConversationData list \<Rightarrow> ImportParticipant list" where
  "all_participants convs = concat (map bundle_participants convs)"

text \<open>
  The users the participants of a bundle resolve to, read in the store after the import
  (users are never changed or removed, so it is the user the routine found or created).
\<close>

definition resolved_users :: "Database \<Rightarrow> ImportParticipant list \<Rightarrow> User list" where
  "resolved_users db participants =
     List.map_filter (\<lambda>p. getUserByEmail db (ip_email p)) participants"

text \<open>
  In the spec's words: the id of the first participant that resolved to a user with the
  responder role.
\<close>

definition spec_first_responder_id :: "Database \<Rightarrow> ImportParticipant list \<Rightarrow> int option" where
  "spec_first_responder_id db participants =
     (case filter (\<lambda>u. u_role u = DOCTOR) (resolved_users db participants) of
        [] \<Rightarrow> None
      | u # _ \<Rightarrow> Some (u_id u))"

text \<open>The id of the last participant that resolved to a user with the responder role.\<close>

definition last_responder_id :: "Database \<Rightarrow> ImportParticipant list \<Rightarrow> int option" where
  "last_responder_id db participants =
     (case filter (\<lambda>u. u_role u = DOCTOR) (resolved_users db participants) of
        [] \<Rightarrow> None
      | u # us \<Rightarrow> Some (u_id (last (u # us))))"

section \<open>JavaScript numbers\<close>

text \<open>
  A JavaScript number is an IEEE 754 double. The finite doubles are rationals, and every
  arithmetic operation gives the exact result rounded to the nearest double, ties to the
  even significand. \<open>fl\<close> is that rounding: 53 significant bits, exponents from -1022
  (below that the doubles are subnormal and keep the spacing \<open>2 powi (-1074)\<close>). Overflow
  to Infinity is not in the model; the values below stay far from it.

  Rounding to the nearest integer, ties to even.
\<close>

definition round_half_even :: "rat \<Rightarrow> int" where
  "round_half_even x =
     (let f = \<lfloor>x\<rfloor>; d = x - of_int f
      in if d < 1 / 2 then f
         else if 1 / 2 < d then f + 1
         else if even f then f else f + 1)"

text \<open>The binary exponent of a positive rational: \<open>2 powi e \<le> x < 2 powi (e + 1)\<close>.\<close>

definition ilog2 :: "rat \<Rightarrow> int" where
  "ilog2 x =
     (case quotient_of x of
        (p, q) \<Rightarrow>
          let e0 = bitlen p - bitlen q
          in if 2 powi e0 \<le> x then e0 else e0 - 1)"

text \<open>The nearest double.\<close>

definition fl :: "rat \<Rightarrow> rat" where
  "fl x =
     (if x = 0 then 0
      else
        let e = max (ilog2 \<bar>x\<bar>) (- 1022);
            ulp = 2 powi (e - 52)
        in sgn x * of_int (round_half_even (\<bar>x\<bar> / ulp)) * ulp)"

text \<open>\<open>a + b\<close>, \<open>a * b\<close> and \<open>a / b\<close> (for \<open>b\<close> other than 0) on numbers.\<close>

definition js_add :: "rat \<Rightarrow> rat \<Rightarrow> rat" where
  "js_add a b = fl (a + b)"

definition js_mul :: "rat \<Rightarrow> rat \<Rightarrow> rat" where
  "js_mul a b = fl (a * b)"

definition js_div :: "rat \<Rightarrow> rat \<Rightarrow> rat" where
  "js_div a b = fl (a / b)"

text \<open>\<open>Math.round\<close>: the nearest integer, ties towards +\<open>\<infinity>\<close>.\<close>

definition Math_round :: "rat \<Rightarrow> rat" where
  "Math_round x = of_int \<lfloor>x + 1 / 2\<rfloor>"

text \<open>\<open>rows.reduce((sum, row) => sum + row.count, 0)\<close>\<close>

definition reduce_sum :: "nat list \<Rightarrow> rat" where
  "reduce_sum counts = foldl (\<lambda>sum c. js_add sum (of_nat c)) 0 counts"

text \<open>
  \<open>avg\<close> is the sum over \<open>rows.length\<close> when there are rows and 0 otherwise;
  the result is \<open>Math.round(avg * 100) / 100\<close>.
\<close>

definition rounded_average :: "nat list \<Rightarrow> rat" where
  "rounded_average counts =
     (let avg = (if length counts > 0 then js_div (reduce_sum counts) (of_nat (length counts))
                 else 0)
      in js_div (Math_round (js_mul avg 100)) 100)"

section \<open>Analytics (DatabaseService.getAnalytics)\<close>

subsection \<open>The date clause\<close>

text \<open>
  \<open>dateFilter\<close> is the text \<open>WHERE created_at BETWEEN '${startDate}' AND '${endDate}'\<close>
  when both dates are given and not empty, and no clause otherwise. The dates are pasted
  between the quotes as they are. SQLite reads \<open>'x'\<close> back as the text \<open>x\<close> when \<open>x\<close>
  holds no quote and no NUL; dates that hold one make some other statement, which is not
  modelled.
\<close>

definition pasted_literal :: "string \<Rightarrow> string option" where
  "pasted_literal x = (if CHR 0x27 \<in> set x \<or> CHR 0x00 \<in> set x then None else Some x)"

text \<open>
  \<open>created_at\<close> is declared DATETIME, a column of NUMERIC affinity. In a comparison with
  it, a text that reads as a number is taken as that number: spaces, a sign, digits with
  or without a decimal point, an exponent, spaces, that is
  \<open>/^\s*[+-]?(\d+(\.\d*)?|\.\d+)([eE][+-]?\d+)?\s*$/\<close> with SQLite's six space characters.
\<close>

definition sql_space :: "char \<Rightarrow> bool" where
  "sql_space c = (of_char c \<in> {9, 10, 11, 12, 13, 32 :: nat})"

definition sql_digit :: "char \<Rightarrow> bool" where
  "sql_digit c = (of_char c \<in> {48, 49, 50, 51, 52, 53, 54, 55, 56, 57 :: nat})"

definition optional :: "regex \<Rightarrow> regex" where
  "optional r = Alt Eps r"

definition sql_sign :: regex where
  "sql_sign = Class (\<lambda>c. c = CHR ''+'' \<or> c = CHR ''-'')"

definition numericRegex :: regex where
  "numericRegex =
     Seq (Star (Class sql_space))
       (Seq (optional sql_sign)
         (Seq (Alt (Seq (OneOrMore (Class sql_digit))
                      (optional (Seq (Class (\<lambda>c. c = CHR ''.'')) (Star (Class sql_digit)))))
                   (Seq (Class (\<lambda>c. c = CHR ''.'')) (OneOrMore (Class sql_digit))))
           (Seq (optional (Seq (Class (\<lambda>c. c = CHR ''e'' \<or> c = CHR ''E''))
                            (Seq (optional sql_sign) (OneOrMore (Class sql_digit)))))
             (Star (Class sql_space)))))"

definition looks_numeric :: "string \<Rightarrow> bool" where
  "looks_numeric x = regex_test numericRegex x"

text \<open>
  A bound of the clause as SQLite compares it: a number or a text. The value of the
  number plays no part, because the stored \<open>created_at\<close> is text ('YYYY-MM-DD HH:MM:SS',
  written by CURRENT_TIMESTAMP: the code never sets the column) and every number is below
  every text.
\<close>

datatype Bound = Numeric | Text string

definition bound :: "string \<Rightarrow> Bound" where
  "bound x = (if looks_numeric x then Numeric else Text x)"

datatype DateFilter = No_clause | BETWEEN Bound Bound | Other_statement

definition dateFilter :: "string option \<Rightarrow> string option \<Rightarrow> DateFilter" where
  "dateFilter startDate endDate =
     (case (truthy_string startDate, truthy_string endDate) of
        (Some s, Some e) \<Rightarrow>
          (case (pasted_literal s, pasted_literal e) of
             (Some lo, Some hi) \<Rightarrow> BETWEEN (bound lo) (bound hi)
           | _ \<Rightarrow> Other_statement)
      | _ \<Rightarrow> No_clause)"

text \<open>
  \<open>x BETWEEN lo AND hi\<close> is \<open>lo <= x AND x <= hi\<close>, on the stored text \<open>x\<close>. Two texts
  compare byte by byte, a prefix before its extensions.
\<close>

definition between :: "Bound \<Rightarrow> Bound \<Rightarrow> string \<Rightarrow> bool" where
  "between lo hi x =
     ((case lo of Numeric \<Rightarrow> True | Text s \<Rightarrow> s \<le> x)
      \<and> (case hi of Numeric \<Rightarrow> False | Text e \<Rightarrow> x \<le> e))"

subsection \<open>The queries\<close>

text \<open>A row of \<open>conversationsPerDay\<close>: \<open>{date, count}\<close>.\<close>

record DayCount =
  dc_date :: "string option"
  dc_count :: nat

text \<open>
  \<open>SELECT DATE(created_at) as date, COUNT(*) as count ... GROUP BY DATE(created_at) ORDER BY
  date DESC\<close>. \<open>DATE\<close> is SQLite's function (NULL for text that is no date); NULL sorts
  below every date.
\<close>

definition group_by_date :: "(string \<Rightarrow> string option) \<Rightarrow> Conversation list \<Rightarrow> DayCount list" where
  "group_by_date DATE rows =
     map (\<lambda>d. \<lparr>dc_date = d, dc_count = length (filter (\<lambda>c. DATE (c_created_at c) = d) rows)\<rparr>)
       (rev (sort (remdups (map (\<lambda>c. DATE (c_created_at c)) rows))))"

text \<open>
  The result object, with the fields of the queries modelled here. The queries that need
  SQLite's clock and time functions, or whose row order SQL leaves open
  (\<open>onHoldConversations\<close>, \<open>busiestDay\<close>, \<open>conversationsByHour\<close> with \<open>busiestTime\<close>,
  \<open>conversationsByStatus\<close>), are left out; they write other fields.
\<close>

record Analytics =
  totalConversations :: nat
  openConversations :: nat
  totalVisitors :: nat
  conversationsPerDay :: "DayCount list"
  avgConversationsPerDay :: rat

text \<open>The queries, with the clause as a condition on \<open>created_at\<close>.\<close>

definition analytics_queries ::
  "(string \<Rightarrow> string option) \<Rightarrow> Database \<Rightarrow> (string \<Rightarrow> bool) \<Rightarrow> Analytics" where
  "analytics_queries DATE db where_created_at =
     (let selected = filter (\<lambda>c. where_created_at (c_created_at c)) (conversations db);
          rows = group_by_date DATE selected
      in \<lparr>totalConversations = length selected,
          openConversations = length (filter (\<lambda>c. c_status c = ACTIVE) selected),
          totalVisitors =
            length (filter (\<lambda>u. u_role u = PATIENT \<and> where_created_at (u_created_at u)) (users db)),
          conversationsPerDay = rows,
          avgConversationsPerDay = rounded_average (map dc_count rows)\<rparr>)"

text \<open>
  \<open>getAnalytics\<close>. The result is \<open>None\<close> where the pasted dates make a statement other than
  the ones above.
\<close>

definition getAnalytics ::
  "(string \<Rightarrow> string option) \<Rightarrow> Database \<Rightarrow> string option \<Rightarrow> string option
    \<Rightarrow> Analytics option" where
  "getAnalytics DATE db startDate endDate =
     (case dateFilter startDate endDate of
        No_clause \<Rightarrow> Some (analytics_queries DATE db (\<lambda>created_at. True))
      | BETWEEN lo hi \<Rightarrow> Some (analytics_queries DATE db (between lo hi))
      | Other_statement \<Rightarrow> None)"

subsection \<open>The range as the claim reads it\<close>

text \<open>
  For bounds that are days (YYYY-MM-DD, as the documentation of the route and its client
  give them), a row falls within the inclusive bound when its day is none before
  \<open>startDate\<close> and none after \<open>endDate\<close>.
\<close>

definition spec_within_range ::
  "(string \<Rightarrow> string option) \<Rightarrow> string \<Rightarrow> string \<Rightarrow> Conversation \<Rightarrow> bool" where
  "spec_within_range DATE startDate endDate c =
     (case DATE (c_created_at c) of
        None \<Rightarrow> False
      | Some day \<Rightarrow> startDate \<le> day \<and> day \<le> endDate)"

section \<open>Example data\<close>

text \<open>Concrete stores, tokens and requests, on which the theorems below are instantiated.\<close>

definition demo_user :: "int \<Rightarrow> string \<Rightarrow> UserRole \<Rightarrow> User" where
  "demo_user i e r = \<lparr>u_id = i, u_email = e, u_password_hash = ''$2a$10$hash'', u_role = r,
     u_display_name = ''Demo'', u_created_at = ''2024-01-01 00:00:00''\<rparr>"

definition demo_conversation :: "int \<Rightarrow> int \<Rightarrow> Conversation" where
  "demo_conversation i creator = \<lparr>c_id = i, c_title = ''Checkup'', c_type = ONE_TO_MANY,
     c_creator_id = creator, c_status = ACTIVE, c_thread_id = ''thread-'' @ string_of_int i,
     c_assigned_doctor_id = None, c_created_at = ''2024-01-02 10:00:00''\<rparr>"

text \<open>
  A store with one user of each role (ids 1 to 4) and two conversations, each with a
  participant row and a metadata row.
\<close>

definition demo_db :: Database where
  "demo_db = \<lparr>users = [demo_user 1 ''patient@example.com'' PATIENT,
                        demo_user 2 ''doctor@example.com'' DOCTOR,
                        demo_user 3 ''admin@example.com'' ADMIN,
                        demo_user 4 ''quality@example.com'' QUALITY],
     conversations = [demo_conversation 1 1, demo_conversation 2 1],
     conversation_participants =
       [\<lparr>cp_id = 1, cp_conversation_id = 1, cp_user_id = 1, cp_joined_at = ''2024-01-02 10:00:00''\<rparr>,
        \<lparr>cp_id = 2, cp_conversation_id = 2, cp_user_id = 1, cp_joined_at = ''2024-01-02 10:00:00''\<rparr>],
     conversation_metadata =
       [\<lparr>cm_id = 1, cm_conversation_id = 1, cm_key = ''k'', cm_value = ''v''\<rparr>,
        \<lparr>cm_id = 2, cm_conversation_id = 2, cm_key = ''k'', cm_value = ''w''\<rparr>],
     attachments = [],
     seq_users = 4, seq_conversations = 2, seq_participants = 2, seq_metadata = 2,
     seq_attachments = 0\<rparr>"

text \<open>The same store with one attachment row for each conversation.\<close>

definition demo_attachment :: "int \<Rightarrow> int \<Rightarrow> Attachment" where
  "demo_attachment i cid = \<lparr>a_id = i, a_conversation_id = cid, a_uploader_id = 1,
     a_original_filename = ''scan.png'', a_stored_filename = ''1700000000000_k3x9f.png'',
     a_file_size = 2048, a_file_type = ''image/png'', a_blob_url = ''https://blob/sas'',
     a_container_name = ''conversation-'' @ string_of_int cid,
     a_created_at = ''2024-01-02 11:00:00''\<rparr>"

definition demo_files_db :: Database where
  "demo_files_db = demo_db\<lparr>attachments := [demo_attachment 1 1, demo_attachment 2 2],
     seq_attachments := 2\<rparr>"

text \<open>
  A token service that knows one token for each user of \<open>demo_db\<close>, and one for a user
  that is no longer in the store.
\<close>

definition demo_verifyToken :: "string \<Rightarrow> Claims option" where
  "demo_verifyToken t =
     (if t = ''patient'' then
        Some \<lparr>t_id = 1, t_email = ''patient@example.com'', t_role = PATIENT, t_display_name = ''Demo''\<rparr>
      else if t = ''doctor'' then
        Some \<lparr>t_id = 2, t_email = ''doctor@example.com'', t_role = DOCTOR, t_display_name = ''Demo''\<rparr>
      else if t = ''admin'' then
        Some \<lparr>t_id = 3, t_email = ''admin@example.com'', t_role = ADMIN, t_display_name = ''Demo''\<rparr>
      else if t = ''quality'' then
        Some \<lparr>t_id = 4, t_email = ''quality@example.com'', t_role = QUALITY, t_display_name = ''Demo''\<rparr>
      else if t = ''gone'' then
        Some \<lparr>t_id = 7, t_email = ''gone@example.com'', t_role = PATIENT, t_display_name = ''Gone''\<rparr>
      else None)"

definition demo_1to1 :: "int option \<Rightarrow> CreateConversationRequest" where
  "demo_1to1 d = \<lparr>req_title = Some ''Checkup'', req_type = Some ''1to1'', req_assigned_doctor_id = d\<rparr>"

definition demo_register :: "string \<Rightarrow> string \<Rightarrow> RegisterRequest" where
  "demo_register password role =
     \<lparr>req_email = Some ''new@example.org'', req_password = Some password, req_role = Some role,
      req_display_name = Some ''New User''\<rparr>"

text \<open>A stand-in for bcrypt.\<close>

definition demo_hashSync :: "string \<Rightarrow> string" where
  "demo_hashSync password = ''$2a$10$'' @ rev password"

definition demo_file :: "int \<Rightarrow> UploadedFile" where
  "demo_file n = \<lparr>originalname = ''scan.png'', mimetype = ''image/png'', size_bytes = n\<rparr>"

text \<open>multer with the limit of the upload route: a file of more than 50 MiB is refused.\<close>

definition demo_upload_single :: "UploadedFile option \<Rightarrow> MulterError + UploadedFile option" where
  "demo_upload_single file =
     (case file of
        None \<Rightarrow> Inr None
      | Some f \<Rightarrow> if size_bytes f > 50 * 1024 * 1024 then Inl LIMIT_FILE_SIZE else Inr (Some f))"








text \<open>
  A freshly seeded store (the administrator and the quality reviewer), a bundle of a
  conversation between two responders and a care-seeker, and the services an import of it
  talks to.
\<close>

definition seeded_db :: Database where
  "seeded_db = \<lparr>users = [demo_user 1 ''admin@example.com'' ADMIN,
                          demo_user 2 ''quality@example.com'' QUALITY],
     conversations = [], conversation_participants = [], conversation_metadata = [],
     attachments = [],
     seq_users = 2, seq_conversations = 0, seq_participants = 0, seq_metadata = 0,
     seq_attachments = 0\<rparr>"

definition demo_env :: ImportEnv where
  "demo_env = \<lparr>env_hashSync = demo_hashSync,
     env_generateTempPassword = (\<lambda>n. ''temporary-password''),
     env_createThread = (\<lambda>n. if n = 3 then Some ''19:thread-a'' else Some ''19:thread-b''),
     env_now = ''2024-01-03 09:00:00'',
     env_isoNow = ''2024-01-03T09:00:00.000Z''\<rparr>"

definition demo_participant :: "string \<Rightarrow> string \<Rightarrow> ImportParticipant" where
  "demo_participant email role = \<lparr>ip_id = ''rc-'' @ email, ip_username = email,
     ip_display_name = ''Imported'', ip_email = email, ip_role = role\<rparr>"

definition demo_participants :: "ImportParticipant list" where
  "demo_participants = [demo_participant ''adams@clinic.example'' ''doctor'',
                        demo_participant ''brown@clinic.example'' ''Dr'',
                        demo_participant ''carol@mail.example'' ''user'']"

definition demo_bundle :: ImportConversationData where
  "demo_bundle = \<lparr>icd_source = Some ''rocketchat'', icd_source_id = Some ''room-1'',
     icd_title = Some ''Second opinion'', icd_type = ''1to1'',
     icd_participants = Some demo_participants,
     icd_messages = Some [], icd_created_at = ''2023-12-01T10:00:00.000Z'',
     icd_exported_at = ''2024-01-02T10:00:00.000Z'', icd_message_count = Some 0\<rparr>"

text \<open>The state the routine starts in, and the state after the participant loop of the bundle.\<close>

definition demo_st0 :: ImportState where
  "demo_st0 = \<lparr>st_db = seeded_db, st_results = no_results, st_calls = 0\<rparr>"

definition demo_st1 :: ImportState where
  "demo_st1 = snd (snd (participant_loop demo_env demo_participants ([], None, demo_st0)))"

text \<open>A stand-in for SQLite's \<open>DATE\<close> on well-formed timestamps.\<close>

definition demo_DATE :: "string \<Rightarrow> string option" where
  "demo_DATE ts = Some (take 10 ts)"

text \<open>The example store with its conversations created on 15 and on 31 January.\<close>

definition demo_january_db :: Database where
  "demo_january_db = demo_db\<lparr>conversations :=
     [(demo_conversation 1 1)\<lparr>c_created_at := ''2024-01-15 10:00:00''\<rparr>,
      (demo_conversation 2 1)\<lparr>c_created_at := ''2024-01-31 15:00:00''\<rparr>]\<rparr>"

section \<open>Facts about the store and the middleware\<close>

lemmas demo_simps = demo_db_def demo_user_def demo_conversation_def demo_verifyToken_def
  getUserById_def db_get_def

lemma split_no_sep: "c \<notin> set t \<Longrightarrow> split c t = [t]"
  by (induction t) auto

lemma bearer_token_Bearer:
  "token \<noteq> [] \<Longrightarrow> CHR '' '' \<notin> set token \<Longrightarrow> bearer_token (Some (''Bearer '' @ token)) = Some token"
  by (simp add: bearer_token_def split_no_sep)

lemma auth_quality:
  "authenticateToken demo_verifyToken demo_db (Some ''Bearer quality'')
     = Inr (demo_user 4 ''quality@example.com'' QUALITY)"
  by (simp add: authenticateToken_def bearer_token_def demo_simps)

lemma auth_patient:
  "authenticateToken demo_verifyToken demo_db (Some ''Bearer patient'')
     = Inr (demo_user 1 ''patient@example.com'' PATIENT)"
  by (simp add: authenticateToken_def bearer_token_def demo_simps)

lemma auth_doctor:
  "authenticateToken demo_verifyToken demo_db (Some ''Bearer doctor'')
     = Inr (demo_user 2 ''doctor@example.com'' DOCTOR)"
  by (simp add: authenticateToken_def bearer_token_def demo_simps)

lemma auth_doctor_files:
  "authenticateToken demo_verifyToken demo_files_db (Some ''Bearer doctor'')
     = Inr (demo_user 2 ''doctor@example.com'' DOCTOR)"
  by (simp add: authenticateToken_def bearer_token_def demo_simps demo_files_db_def)

lemma auth_admin:
  "authenticateToken demo_verifyToken demo_db (Some ''Bearer admin'')
     = Inr (demo_user 3 ''admin@example.com'' ADMIN)"
  by (simp add: authenticateToken_def bearer_token_def demo_simps)

lemma getUserById_demo_db:
  "getUserById demo_db 99 = None"
  "getUserById demo_db 3 = Some (demo_user 3 ''admin@example.com'' ADMIN)"
  by (simp_all add: demo_simps)

lemma getConversationById_demo_db: "getConversationById demo_db 1 = Some (demo_conversation 1 1)"
  by (simp add: getConversationById_def demo_db_def demo_conversation_def db_get_def)

lemma db_get_filter_Some: "db_get (filter P xs) = Some x \<Longrightarrow> P x \<and> x \<in> set xs"
  by (induction xs) (auto simp: db_get_def split: if_splits)

lemma getUserById_member: "getUserById db i = Some u \<Longrightarrow> u_id u = i \<and> u \<in> set (users db)"
  unfolding getUserById_def by (drule db_get_filter_Some) simp

lemma authenticateToken_member:
  "authenticateToken verifyToken db authHeader = Inr user \<Longrightarrow> user \<in> set (users db)"
  by (auto simp: authenticateToken_def split: option.splits dest: getUserById_member)

text \<open>AUTOINCREMENT never hands out an id the table holds.\<close>

lemma fold_max_start: "(s::int) \<le> fold max xs s"
proof (induction xs arbitrary: s)
  case Nil
  show ?case by simp
next
  case (Cons a xs)
  have "s \<le> max a s" by simp
  also have "\<dots> \<le> fold max xs (max a s)" by (rule Cons.IH)
  finally show ?case by simp
qed

lemma fold_max_ge: "x \<in> set xs \<Longrightarrow> (x::int) \<le> fold max xs s"
proof (induction xs arbitrary: s)
  case Nil
  then show ?case by simp
next
  case (Cons a xs)
  show ?case
  proof (cases "x = a")
    case True
    have "x \<le> max a s" using True by simp
    also have "\<dots> \<le> fold max xs (max a s)" by (rule fold_max_start)
    finally show ?thesis by simp
  next
    case False
    then have "x \<in> set xs" using Cons.prems by simp
    then show ?thesis using Cons.IH by simp
  qed
qed

lemma lastID_fresh: "x \<in> set ids \<Longrightarrow> x < lastID seq ids"
  using fold_max_ge [of x ids seq] by (simp add: lastID_def)

lemma createUser_result:
  assumes "getUserByEmail db email = None"
  shows "\<exists>i db' u. createUser hashSync now db email password role displayName = Some (i, db')
           \<and> getUserById db' i = Some u \<and> u_id u = i \<and> u_email u = email \<and> u_role u = role
           \<and> u_display_name u = displayName
           \<and> users db' = users db @ [u]"
proof -
  have none: "\<forall>u \<in> set (users db). u_email u \<noteq> email"
    using assms by (auto simp: getUserByEmail_def db_get_def filter_empty_conv split: list.splits)
  have fresh: "\<forall>u \<in> set (users db). u_id u \<noteq> lastID (seq_users db) (map u_id (users db))"
    using lastID_fresh [of _ "map u_id (users db)" "seq_users db"] by fastforce
  show ?thesis
    using none fresh
    by (simp add: createUser_def Let_def getUserById_def db_get_def)
qed

section \<open>GET /conversations for a quality reviewer\<close>

text \<open>
  Claim C9. A request to GET /conversations by an authenticated quality reviewer always
  gets status 500 with the message "Failed to get conversations": the role passes the
  any-role gate, none of the three branches assigns the list, and reading the undefined
  list throws.
\<close>

theorem quality_reviewer_conversations_500:
  assumes "authenticateToken verifyToken db authHeader = Inr user" and "u_role user = QUALITY"
  shows "get_conversations verifyToken db authHeader = (500, Failure ''Failed to get conversations'')"
  using assms
  by (simp add: get_conversations_def requireAnyRole_def requireRole_def get_conversations_handler_def)

text \<open>Claim C9, on the quality reviewer of the example store.\<close>

theorem quality_reviewer_conversations_500_witness:
  "authenticateToken demo_verifyToken demo_db (Some ''Bearer quality'')
     = Inr (demo_user 4 ''quality@example.com'' QUALITY)
   \<and> u_role (demo_user 4 ''quality@example.com'' QUALITY) = QUALITY
   \<and> get_conversations demo_verifyToken demo_db (Some ''Bearer quality'')
     = (500, Failure ''Failed to get conversations'')"
  using quality_reviewer_conversations_500 [OF auth_quality] auth_quality
  by (simp add: demo_user_def)

section \<open>GET /auth/verify does not read the store\<close>

text \<open>
  Claim C10. GET /auth/verify answers 200 with the claims decoded from any bearer token
  that verifies; the store is not among its inputs. For the same token,
  \<open>authenticateToken\<close> answers 401 in every store that holds no user with the token's id.
\<close>

theorem verify_ignores_store:
  assumes "verifyToken token = Some decoded" and "token \<noteq> []" and "CHR '' '' \<notin> set token"
  shows "get_auth_verify verifyToken (Some (''Bearer '' @ token)) = (200, Success decoded)
       \<and> (\<forall>db. getUserById db (t_id decoded) = None \<longrightarrow>
            authenticateToken verifyToken db (Some (''Bearer '' @ token))
              = Inl (401, ''User not found''))"
proof -
  have tok: "bearer_token (Some (''Bearer '' @ token)) = Some token"
    using assms(2,3) by (rule bearer_token_Bearer)
  show ?thesis
    unfolding get_auth_verify_def authenticateToken_def tok using assms(1) by simp
qed

text \<open>Claim C10, on a token whose user (id 7) is not in the example store.\<close>

theorem verify_ignores_store_witness:
  "get_auth_verify demo_verifyToken (Some ''Bearer gone'')
     = (200, Success \<lparr>t_id = 7, t_email = ''gone@example.com'', t_role = PATIENT,
                      t_display_name = ''Gone''\<rparr>)
   \<and> authenticateToken demo_verifyToken demo_db (Some ''Bearer gone'') = Inl (401, ''User not found'')"
  using verify_ignores_store [of demo_verifyToken "''gone''" _ ]
  by (simp add: demo_simps)

section \<open>DELETE /conversations/:id\<close>

text \<open>
  Claim C8. For an authenticated caller, DELETE /conversations/:id answers 403 unless the
  role is responder or administrator, so a 200 means one of these two roles. For such a
  caller and an existing conversation it answers 200, and the run of the deletion is four
  stores, one after each statement: first the conversation's participant rows are gone,
  then also its metadata rows, then also its attachment rows, and only in the fourth and
  last store the conversation row itself, which the first three still hold. The request
  leaves the last store behind; each table keeps exactly the rows of the other
  conversations, and the users are untouched.
\<close>

theorem delete_conversation_cascade:
  assumes "authenticateToken verifyToken db authHeader = Inr user"
  shows "(u_role user \<noteq> DOCTOR \<and> u_role user \<noteq> ADMIN \<longrightarrow>
            delete_conversation verifyToken db authHeader conversationId
              = ((403, Message ''Insufficient permissions''), db))
       \<and> (fst (fst (delete_conversation verifyToken db authHeader conversationId)) = 200 \<longrightarrow>
            u_role user = DOCTOR \<or> u_role user = ADMIN)
       \<and> ((u_role user = DOCTOR \<or> u_role user = ADMIN) \<and> getConversationById db i \<noteq> None \<longrightarrow>
            (let db1 = db\<lparr>conversation_participants :=
                         filter (\<lambda>cp. cp_conversation_id cp \<noteq> i) (conversation_participants db)\<rparr>;
                 db2 = db1\<lparr>conversation_metadata :=
                         filter (\<lambda>cm. cm_conversation_id cm \<noteq> i) (conversation_metadata db)\<rparr>;
                 db3 = db2\<lparr>attachments := filter (\<lambda>a. a_conversation_id a \<noteq> i) (attachments db)\<rparr>;
                 db4 = db3\<lparr>conversations := filter (\<lambda>c. c_id c \<noteq> i) (conversations db)\<rparr>;
                 db' = snd (delete_conversation verifyToken db authHeader (Some i))
             in fst (delete_conversation verifyToken db authHeader (Some i))
                  = (200, Success ''Conversation deleted successfully'')
              \<and> db_states (deleteConversation_statements i) db = [db1, db2, db3, db4]
              \<and> db' = last (db_states (deleteConversation_statements i) db)
              \<and> getConversationById db1 i = getConversationById db i
              \<and> getConversationById db2 i = getConversationById db i
              \<and> getConversationById db3 i = getConversationById db i
              \<and> getConversationById db4 i = None
              \<and> db' = db_run (DELETE_FROM_conversations i)
                        (db_run (DELETE_FROM_attachments i)
                          (db_run (DELETE_FROM_conversation_metadata i)
                            (db_run (DELETE_FROM_conversation_participants i) db)))
              \<and> conversation_participants db'
                  = filter (\<lambda>cp. cp_conversation_id cp \<noteq> i) (conversation_participants db)
              \<and> conversation_metadata db'
                  = filter (\<lambda>cm. cm_conversation_id cm \<noteq> i) (conversation_metadata db)
              \<and> attachments db' = filter (\<lambda>a. a_conversation_id a \<noteq> i) (attachments db)
              \<and> conversations db' = filter (\<lambda>c. c_id c \<noteq> i) (conversations db)
              \<and> users db' = users db))"
proof -
  have gone: "db_get (filter (\<lambda>c. c_id c = i) (filter (\<lambda>c. c_id c \<noteq> i) (conversations db))) = None"
    by (simp add: db_get_def filter_empty_conv)
  show ?thesis
    using assms gone
    by (auto simp: delete_conversation_def requireDoctorOrAdmin_def requireRole_def rejected_def
        delete_conversation_handler_def deleteConversation_def db_serialize_def
        deleteConversation_statements_def getConversationById_def Let_def)
qed

text \<open>
  Claim C8, on the example stores: the care-seeker gets 403; the responder deletes
  conversation 1 of a store where each of the two conversations has a participant row, a
  metadata row and an attachment row. The run is written as the ids each table holds
  after each of the four statements; the rows of conversation 2 stay.
\<close>

theorem delete_conversation_cascade_witness:
  "delete_conversation demo_verifyToken demo_db (Some ''Bearer patient'') (Some 1)
     = ((403, Message ''Insufficient permissions''), demo_db)
   \<and> fst (delete_conversation demo_verifyToken demo_files_db (Some ''Bearer doctor'') (Some 1))
       = (200, Success ''Conversation deleted successfully'')
   \<and> map (\<lambda>d. (map cp_id (conversation_participants d), map cm_id (conversation_metadata d),
                map a_id (attachments d), map c_id (conversations d)))
       (db_states (deleteConversation_statements 1) demo_files_db)
       = [([2], [1, 2], [1, 2], [1, 2]),
          ([2], [2], [1, 2], [1, 2]),
          ([2], [2], [2], [1, 2]),
          ([2], [2], [2], [2])]
   \<and> conversations (snd (delete_conversation demo_verifyToken demo_files_db (Some ''Bearer doctor'') (Some 1)))
       = [demo_conversation 2 1]
   \<and> map cp_id (conversation_participants
        (snd (delete_conversation demo_verifyToken demo_files_db (Some ''Bearer doctor'') (Some 1)))) = [2]
   \<and> map cm_id (conversation_metadata
        (snd (delete_conversation demo_verifyToken demo_files_db (Some ''Bearer doctor'') (Some 1)))) = [2]
   \<and> map a_id (attachments
        (snd (delete_conversation demo_verifyToken demo_files_db (Some ''Bearer doctor'') (Some 1)))) = [2]"
  using delete_conversation_cascade [OF auth_patient, of "Some 1" 1]
        delete_conversation_cascade [OF auth_doctor_files, of "Some 1" 1]
  by (simp add: Let_def demo_files_db_def demo_attachment_def demo_db_def demo_user_def
      demo_conversation_def getConversationById_def db_get_def)

section \<open>POST /conversations of type 1to1\<close>

text \<open>
  Claim C2. A care-seeker's POST /conversations with type '1to1' whose assigned_doctor_id
  is absent, names no user, or names a user who is not a responder, gets status 400 and
  leaves the store (so the conversations table) as it was.
\<close>

theorem one_to_one_requires_responder:
  assumes "authenticateToken verifyToken db authHeader = Inr user"
    and "u_role user = PATIENT"
    and "req_type body = Some ''1to1''"
    and "req_assigned_doctor_id body = None
         \<or> (\<exists>d. req_assigned_doctor_id body = Some d
                \<and> (getUserById db d = None
                    \<or> (\<exists>u. getUserById db d = Some u \<and> u_role u \<noteq> DOCTOR)))"
  shows "\<exists>msg. post_conversations verifyToken createThread now db authHeader body
           = ((400, Failure msg), db)"
proof -
  have chk: "check_doctor_assignment db ONE_TO_ONE (req_assigned_doctor_id body) \<noteq> None"
    using assms(4)
    by (auto simp: check_doctor_assignment_def truthy_id_def split: option.splits)
  show ?thesis
    using assms(1,2,3) chk
    by (auto simp: post_conversations_def requirePatient_def requireRole_def
        post_conversations_handler_def truthy_string_def ConversationType_of_def
        split: option.splits)
qed

text \<open>
  Claim C2, on the example store: no assigned_doctor_id, an id nobody has (99), and the
  id of the administrator (3).
\<close>

theorem one_to_one_requires_responder_witness:
  "post_conversations demo_verifyToken (Some ''thread-9'') ''2024-01-03 09:00:00'' demo_db
     (Some ''Bearer patient'') (demo_1to1 None)
     = ((400, Failure ''Doctor assignment required for 1:1 conversations''), demo_db)
   \<and> post_conversations demo_verifyToken (Some ''thread-9'') ''2024-01-03 09:00:00'' demo_db
     (Some ''Bearer patient'') (demo_1to1 (Some 99))
     = ((400, Failure ''Invalid doctor assignment''), demo_db)
   \<and> post_conversations demo_verifyToken (Some ''thread-9'') ''2024-01-03 09:00:00'' demo_db
     (Some ''Bearer patient'') (demo_1to1 (Some 3))
     = ((400, Failure ''Invalid doctor assignment''), demo_db)"
proof -
  have "\<exists>msg. post_conversations demo_verifyToken (Some ''thread-9'') ''2024-01-03 09:00:00'' demo_db
       (Some ''Bearer patient'') (demo_1to1 None) = ((400, Failure msg), demo_db)"
    by (rule one_to_one_requires_responder [OF auth_patient])
       (simp_all add: demo_user_def demo_1to1_def)
  moreover have "\<exists>msg. post_conversations demo_verifyToken (Some ''thread-9'') ''2024-01-03 09:00:00'' demo_db
       (Some ''Bearer patient'') (demo_1to1 (Some 99)) = ((400, Failure msg), demo_db)"
    by (rule one_to_one_requires_responder [OF auth_patient])
       (simp_all add: demo_user_def demo_1to1_def getUserById_demo_db)
  moreover have "\<exists>msg. post_conversations demo_verifyToken (Some ''thread-9'') ''2024-01-03 09:00:00'' demo_db
       (Some ''Bearer patient'') (demo_1to1 (Some 3)) = ((400, Failure msg), demo_db)"
    by (rule one_to_one_requires_responder [OF auth_patient])
       (simp_all add: demo_user_def demo_1to1_def getUserById_demo_db)
  ultimately show ?thesis
    by (simp add: demo_1to1_def auth_patient post_conversations_def requirePatient_def requireRole_def
        post_conversations_handler_def truthy_string_def ConversationType_of_def
        check_doctor_assignment_def truthy_id_def getUserById_demo_db demo_user_def)
qed

section \<open>POST /auth/register\<close>

lemma emailRegex_demo: "regex_test emailRegex ''new@example.org''"
  by (simp add: regex_test_def emailRegex_def OneOrMore_def not_space_at_def is_space_def)

lemma getUserByEmail_demo_new: "getUserByEmail demo_db ''new@example.org'' = None"
  by (simp add: getUserByEmail_def demo_db_def demo_user_def db_get_def)

text \<open>
  Claim C3. POST /auth/register answers 400 (and leaves the store alone) when one of
  email, password, role and display_name is missing or empty, when the role is not one of
  the four role values, when the email does not match the pattern, or when the password
  has fewer than 6 characters. A request with all four fields, a valid role (any of the
  four, \<open>quality\<close> included), a matching email that no user has, and a password of at least
  6 characters gets 201 and a user whose role is the role asked for.
\<close>

theorem register_validation:
  "(truthy_string (req_email body) = None \<or> truthy_string (req_password body) = None
      \<or> truthy_string (req_role body) = None \<or> truthy_string (req_display_name body) = None
      \<or> (\<exists>r. req_role body = Some r \<and> UserRole_of r = None)
      \<or> (\<exists>e. req_email body = Some e \<and> \<not> regex_test emailRegex e)
      \<or> (\<exists>p. req_password body = Some p \<and> length p < 6)
    \<longrightarrow> (\<exists>msg. post_auth_register hashSync now db body = ((400, Failure msg), db)))
   \<and> (req_email body = Some email \<and> req_password body = Some password
        \<and> req_role body = Some role_str \<and> req_display_name body = Some display_name
        \<and> display_name \<noteq> [] \<and> UserRole_of role_str = Some role
        \<and> regex_test emailRegex email \<and> 6 \<le> length password
        \<and> getUserByEmail db email = None
      \<longrightarrow> (\<exists>user db'. post_auth_register hashSync now db body = ((201, Success user), db')
              \<and> pu_role user = role \<and> pu_email user = email
              \<and> pu_display_name user = display_name
              \<and> UserRole_value (pu_role user) = role_str))"
proof (intro conjI impI)
  assume "truthy_string (req_email body) = None \<or> truthy_string (req_password body) = None
      \<or> truthy_string (req_role body) = None \<or> truthy_string (req_display_name body) = None
      \<or> (\<exists>r. req_role body = Some r \<and> UserRole_of r = None)
      \<or> (\<exists>e. req_email body = Some e \<and> \<not> regex_test emailRegex e)
      \<or> (\<exists>p. req_password body = Some p \<and> length p < 6)"
  then show "\<exists>msg. post_auth_register hashSync now db body = ((400, Failure msg), db)"
    by (auto simp: post_auth_register_def truthy_string_def
        split: option.splits if_splits prod.splits sum.splits)
next
  assume a: "req_email body = Some email \<and> req_password body = Some password
        \<and> req_role body = Some role_str \<and> req_display_name body = Some display_name
        \<and> display_name \<noteq> [] \<and> UserRole_of role_str = Some role
        \<and> regex_test emailRegex email \<and> 6 \<le> length password
        \<and> getUserByEmail db email = None"
  have ne: "email \<noteq> []" "password \<noteq> []" "role_str \<noteq> []"
    using a by (auto simp: regex_test_def emailRegex_def OneOrMore_def UserRole_of_def)
  obtain i db' u where c: "createUser hashSync now db email password role display_name = Some (i, db')"
    and u: "getUserById db' i = Some u" "u_email u = email" "u_role u = role"
      "u_display_name u = display_name"
    using createUser_result [of db email hashSync now password role display_name] a by metis
  have v: "UserRole_value role = role_str"
    using a by (auto simp: UserRole_of_def split: if_splits)
  show "\<exists>user db'. post_auth_register hashSync now db body = ((201, Success user), db')
              \<and> pu_role user = role \<and> pu_email user = email
              \<and> pu_display_name user = display_name
              \<and> UserRole_value (pu_role user) = role_str"
    using a ne c u v
    by (simp add: post_auth_register_def truthy_string_def register_def)
qed

text \<open>
  Claim C3, on the example store: a password of 5 characters, the role "superuser", and a
  well-formed request for the role "quality".
\<close>

theorem register_validation_witness:
  "(\<exists>msg. post_auth_register demo_hashSync ''2024-01-03 09:00:00'' demo_db (demo_register ''12345'' ''quality'')
       = ((400, Failure msg), demo_db))
   \<and> (\<exists>msg. post_auth_register demo_hashSync ''2024-01-03 09:00:00'' demo_db (demo_register ''123456'' ''superuser'')
       = ((400, Failure msg), demo_db))
   \<and> (\<exists>user db'. post_auth_register demo_hashSync ''2024-01-03 09:00:00'' demo_db (demo_register ''123456'' ''quality'')
          = ((201, Success user), db')
        \<and> pu_role user = QUALITY \<and> pu_email user = ''new@example.org'')"
proof (intro conjI)
  show "\<exists>msg. post_auth_register demo_hashSync ''2024-01-03 09:00:00'' demo_db (demo_register ''12345'' ''quality'')
       = ((400, Failure msg), demo_db)"
    using register_validation [of "demo_register ''12345'' ''quality''" demo_hashSync "''2024-01-03 09:00:00''" demo_db]
    by (simp add: demo_register_def)
  show "\<exists>msg. post_auth_register demo_hashSync ''2024-01-03 09:00:00'' demo_db (demo_register ''123456'' ''superuser'')
       = ((400, Failure msg), demo_db)"
    using register_validation [of "demo_register ''123456'' ''superuser''" demo_hashSync "''2024-01-03 09:00:00''" demo_db]
    by (simp add: demo_register_def UserRole_of_def)
  show "\<exists>user db'. post_auth_register demo_hashSync ''2024-01-03 09:00:00'' demo_db (demo_register ''123456'' ''quality'')
          = ((201, Success user), db')
        \<and> pu_role user = QUALITY \<and> pu_email user = ''new@example.org''"
    using register_validation [of "demo_register ''123456'' ''quality''" demo_hashSync "''2024-01-03 09:00:00''" demo_db
        "''new@example.org''" "''123456''" "''quality''" "''New User''" QUALITY]
      emailRegex_demo getUserByEmail_demo_new
    by (auto simp: demo_register_def UserRole_of_def)
qed

section \<open>POST /attachments/upload/:conversationId\<close>

lemma participant_join:
  assumes "user \<in> set (users db)"
  shows "(\<exists>p \<in> set (getConversationParticipants db cid). u_id p = u_id user)
          \<longleftrightarrow> is_participant db cid (u_id user)"
proof
  assume "\<exists>p \<in> set (getConversationParticipants db cid). u_id p = u_id user"
  then show "is_participant db cid (u_id user)"
    by (auto simp: getConversationParticipants_def is_participant_def)
next
  assume "is_participant db cid (u_id user)"
  then obtain cp where cp: "cp \<in> set (conversation_participants db)"
      "cp_conversation_id cp = cid" "cp_user_id cp = u_id user"
    by (auto simp: is_participant_def)
  have "user \<in> set (filter (\<lambda>u. u_id u = cp_user_id cp) (users db))"
    using assms cp(3) by simp
  then have "user \<in> set (getConversationParticipants db cid)"
    using cp(1,2) by (auto simp: getConversationParticipants_def)
  then show "\<exists>p \<in> set (getConversationParticipants db cid). u_id p = u_id user"
    by blast
qed

lemma demo_file_allowed: "mimetype (demo_file n) \<in> set ALLOWED_FILE_TYPES"
  by (simp add: demo_file_def ALLOWED_FILE_TYPES_def)

lemma demo_upload_single_limits: "multer_limits_fileSize upload_limits_fileSize demo_upload_single"
  by (simp add: multer_limits_fileSize_def upload_limits_fileSize_def demo_upload_single_def)

text \<open>
  Claim C1 as stated fails, in both halves. An administrator uploads a PNG of 2048 bytes
  to the existing conversation 1, so the type is allowed, the size is within the limit and
  the caller has access, but the blob store is not configured and the answer is 500, not
  201. And the administrator's PNG of 50 MiB and one byte is refused by
  \<open>upload.single\<close> before the handler runs, so the answer is the 500 of the default error
  handler, not 400.
\<close>

theorem upload_created_iff_counterexample:
  "authenticateToken demo_verifyToken demo_db (Some ''Bearer admin'')
     = Inr (demo_user 3 ''admin@example.com'' ADMIN)
   \<and> u_role (demo_user 3 ''admin@example.com'' ADMIN) = ADMIN
   \<and> getConversationById demo_db 1 = Some (demo_conversation 1 1)
   \<and> mimetype (demo_file 2048) \<in> set ALLOWED_FILE_TYPES
   \<and> size_bytes (demo_file 2048) \<le> 50 * 1024 * 1024
   \<and> post_attachments_upload demo_verifyToken demo_upload_single NotConfigured
        ''1700000000000_k3x9f.png'' ''2024-01-03 09:00:00'' ''2024-01-03T09:00:00.000Z'' demo_db
        (Some ''Bearer admin'') (Some 1) (Some (demo_file 2048))
      = ((500, Failure ''Azure Blob Storage not configured''), demo_db)
   \<and> size_bytes (demo_file 52428801) > 50 * 1024 * 1024
   \<and> post_attachments_upload demo_verifyToken demo_upload_single (Stored ''https://blob/sas'')
        ''1700000000000_k3x9f.png'' ''2024-01-03 09:00:00'' ''2024-01-03T09:00:00.000Z'' demo_db
        (Some ''Bearer admin'') (Some 1) (Some (demo_file 52428801))
      = ((500, ErrorPage), demo_db)"
  by (simp add: auth_admin getConversationById_demo_db demo_file_allowed
      post_attachments_upload_def upload_handler_def requireAnyRole_def requireRole_def
      hasAccess_def MAX_FILE_SIZE_def demo_upload_single_def default_error_handler_def)
     (simp add: demo_user_def demo_file_def)

text \<open>
  Claim C1, amended. For an authenticated request with a file to an existing conversation,
  the upload answers 201 if and only if the file's MIME type is in the allow-list, its size
  is at most 50 MiB, the caller is an administrator, a participant, the creator or (as a
  responder) the assigned responder of the conversation, and the blob store is configured
  and stores the file. multer is taken to act on its limit as documented.
\<close>

theorem upload_created_iff:
  assumes "authenticateToken verifyToken db authHeader = Inr user"
    and "getConversationById db cid = Some conversation"
    and "multer_limits_fileSize upload_limits_fileSize upload_single"
  shows "fst (fst (post_attachments_upload verifyToken upload_single storage storedFilename now
                     isoNow db authHeader (Some cid) (Some file))) = 201
          \<longleftrightarrow> mimetype file \<in> set ALLOWED_FILE_TYPES
              \<and> size_bytes file \<le> 50 * 1024 * 1024
              \<and> (u_role user = ADMIN
                  \<or> is_participant db cid (u_id user)
                  \<or> c_creator_id conversation = u_id user
                  \<or> (u_role user = DOCTOR \<and> c_assigned_doctor_id conversation = Some (u_id user)))
              \<and> (\<exists>sasUrl. storage = Stored sasUrl)"
proof -
  have acc: "hasAccess db user cid conversation \<longleftrightarrow>
      (u_role user = ADMIN
       \<or> is_participant db cid (u_id user)
       \<or> c_creator_id conversation = u_id user
       \<or> (u_role user = DOCTOR \<and> c_assigned_doctor_id conversation = Some (u_id user)))"
    using participant_join [OF authenticateToken_member [OF assms(1)], of cid]
    by (simp add: hasAccess_def)
  have any: "requireAnyRole user = None"
    by (cases "u_role user") (simp_all add: requireAnyRole_def requireRole_def)
  have multer: "upload_single (Some file)
      = (if size_bytes file > 50 * 1024 * 1024 then Inl LIMIT_FILE_SIZE else Inr (Some file))"
    using assms(3) by (simp add: multer_limits_fileSize_def upload_limits_fileSize_def)
  show ?thesis
    by (cases storage)
       (simp_all add: post_attachments_upload_def upload_handler_def assms(1,2) any acc multer
          default_error_handler_def MAX_FILE_SIZE_def createAttachment_def Let_def)
qed

text \<open>
  Claim C1 amended, on the example store: the administrator's PNG of 2048 bytes is stored
  (201), and one of 50 MiB and one byte is not.
\<close>

theorem upload_created_iff_witness:
  "authenticateToken demo_verifyToken demo_db (Some ''Bearer admin'')
     = Inr (demo_user 3 ''admin@example.com'' ADMIN)
   \<and> getConversationById demo_db 1 = Some (demo_conversation 1 1)
   \<and> multer_limits_fileSize upload_limits_fileSize demo_upload_single
   \<and> fst (fst (post_attachments_upload demo_verifyToken demo_upload_single
        (Stored ''https://blob/sas'') ''1700000000000_k3x9f.png'' ''2024-01-03 09:00:00''
        ''2024-01-03T09:00:00.000Z'' demo_db (Some ''Bearer admin'') (Some 1)
        (Some (demo_file 2048)))) = 201
   \<and> fst (fst (post_attachments_upload demo_verifyToken demo_upload_single
        (Stored ''https://blob/sas'') ''1700000000000_k3x9f.png'' ''2024-01-03 09:00:00''
        ''2024-01-03T09:00:00.000Z'' demo_db (Some ''Bearer admin'') (Some 1)
        (Some (demo_file 52428801)))) \<noteq> 201"
  using upload_created_iff [OF auth_admin getConversationById_demo_db demo_upload_single_limits,
      of "Stored ''https://blob/sas''" "''1700000000000_k3x9f.png''" "''2024-01-03 09:00:00''"
         "''2024-01-03T09:00:00.000Z''" "demo_file 2048"]
    upload_created_iff [OF auth_admin getConversationById_demo_db demo_upload_single_limits,
      of "Stored ''https://blob/sas''" "''1700000000000_k3x9f.png''" "''2024-01-03 09:00:00''"
         "''2024-01-03T09:00:00.000Z''" "demo_file 52428801"]
    demo_file_allowed [of 2048] auth_admin getConversationById_demo_db demo_upload_single_limits
  by (simp add: demo_user_def) (simp add: demo_file_def)

section \<open>RocketChat pagination\<close>












section \<open>Import of conversation bundles\<close>

lemma getUserByEmail_None_iff:
  "getUserByEmail db e = None \<longleftrightarrow> e \<notin> set (map u_email (users db))"
proof -
  have "getUserByEmail db e = None \<longleftrightarrow> filter (\<lambda>u. u_email u = e) (users db) = []"
    by (simp add: getUserByEmail_def db_get_def split: list.splits)
  also have "\<dots> \<longleftrightarrow> e \<notin> set (map u_email (users db))"
    by (auto simp: filter_empty_conv)
  finally show ?thesis .
qed

lemma createUser_Some:
  "e \<notin> set (map u_email (users db)) \<Longrightarrow>
     \<exists>i db'. createUser h now db e pw role dn = Some (i, db')
       \<and> map u_email (users db') = map u_email (users db) @ [e]"
  by (auto simp: createUser_def Let_def)

lemma user_view_push [simp]:
  "user_view (push_skipped x st) = (fst (user_view st), fst (snd (user_view st)), snd (snd (user_view st)) @ [x])"
  "user_view (push_created y st) = (fst (user_view st), fst (snd (user_view st)) @ [y], snd (snd (user_view st)))"
  "user_view (push_failed x st) = user_view st"
  "user_view (st\<lparr>st_calls := n\<rparr>) = user_view st"
  by (simp_all add: user_view_def push_skipped_def push_created_def push_failed_def)

lemma find_or_create_user_view:
  assumes "find_or_create_user env st p = (r, st')"
  shows "user_view st' = participant_step p (user_view st)"
proof (cases "getUserByEmail (st_db st) (ip_email p)")
  case None
  then have notin: "ip_email p \<notin> set (map u_email (users (st_db st)))"
    by (simp add: getUserByEmail_None_iff)
  obtain i db' where c: "createUser (env_hashSync env) (env_now env) (st_db st) (ip_email p)
        (env_generateTempPassword env (st_calls st)) (mapRole (ip_role p)) (ip_display_name p) = Some (i, db')"
    and em: "map u_email (users db') = map u_email (users (st_db st)) @ [ip_email p]"
    using createUser_Some [OF notin] by blast
  have "st' = push_created (ip_email p, mapRole (ip_role p)) (st\<lparr>st_calls := Suc (st_calls st), st_db := db'\<rparr>)"
    using assms None c by (simp add: find_or_create_user_def Let_def)
  then show ?thesis
    using notin em by (simp add: user_view_def push_created_def)
next
  case (Some u)
  then have "ip_email p \<in> set (map u_email (users (st_db st)))"
    using getUserByEmail_None_iff [of "st_db st" "ip_email p"] by simp
  moreover have "st' = push_skipped (ip_email p, ''User already exists'') st"
    using assms Some by (simp add: find_or_create_user_def)
  ultimately show ?thesis
    by (simp add: user_view_def push_skipped_def)
qed

lemma participant_loop_view:
  "participant_loop env ps (ids, d, st) = (ids', d', st') \<Longrightarrow>
     user_view st' = fold participant_step ps (user_view st)"
proof (induction ps arbitrary: ids d st)
  case Nil
  then show ?case by simp
next
  case (Cons p ps)
  obtain r st1 where f: "find_or_create_user env st p = (r, st1)"
    by (cases "find_or_create_user env st p")
  have v: "user_view st1 = participant_step p (user_view st)"
    by (rule find_or_create_user_view [OF f])
  show ?case
  proof (cases r)
    case None
    then have "participant_loop env ps (ids, d, st1) = (ids', d', st')"
      using Cons.prems f by simp
    then show ?thesis using Cons.IH v by simp
  next
    case (Some u)
    then have "participant_loop env ps
        (ids @ [u_id u], (if u_role u = DOCTOR then Some (u_id u) else d), st1) = (ids', d', st')"
      using Cons.prems f by simp
    then show ?thesis using Cons.IH v by simp
  qed
qed

lemma users_createConversation:
  "createConversation now db t ty c th d = Some (i, db') \<Longrightarrow> users db' = users db"
  by (auto simp: createConversation_def Let_def split: if_splits)

lemma users_add_participants [simp]: "users (add_participants now cid ids db) = users db"
  by (induction ids arbitrary: db)
     (auto simp: addConversationParticipant_def insert_participant_def Let_def)

lemma users_addConversationMetadata [simp]: "users (addConversationMetadata db cid k v) = users db"
  by (simp add: addConversationMetadata_def Let_def)

lemma users_add_import_metadata [simp]: "users (add_import_metadata env imp cid c n db) = users db"
  by (simp add: add_import_metadata_def Let_def)

lemma user_view_store_conversation:
  "user_view (store_conversation env importerId convData title n ids d creatorId threadId st2)
     = user_view st2"
  by (auto simp: store_conversation_def user_view_def push_failed_def
      split: option.splits dest: users_createConversation)

lemma user_view_after_participants:
  "user_view (after_participants env importerId convData title n (ids, d, st1)) = user_view st1"
  by (cases ids) (simp_all add: user_view_store_conversation split: option.splits)

lemma import_conversation_view:
  "user_view (import_conversation env importerId st convData)
     = fold participant_step (bundle_participants convData) (user_view st)"
proof (cases "\<exists>title ps ms. truthy_string (icd_title convData) = Some title
                \<and> icd_participants convData = Some ps \<and> icd_messages convData = Some ms")
  case False
  then show ?thesis
    by (auto simp: import_conversation_def bundle_participants_def split: option.splits)
next
  case True
  then obtain title ps ms where v: "truthy_string (icd_title convData) = Some title"
      "icd_participants convData = Some ps" "icd_messages convData = Some ms"
    by blast
  obtain ids d st1 where l: "participant_loop env ps ([], None, st) = (ids, d, st1)"
    by (cases "participant_loop env ps ([], None, st)")
  have v1: "user_view st1 = fold participant_step ps (user_view st)"
    by (rule participant_loop_view [OF l])
  have "user_view (import_conversation env importerId st convData) = user_view st1"
    by (simp add: import_conversation_def v l user_view_after_participants)
  then show ?thesis
    by (simp add: v1 bundle_participants_def v)
qed

lemma foldl_import_view:
  "user_view (foldl (import_conversation env importerId) st convs)
     = fold participant_step (all_participants convs) (user_view st)"
  by (induction convs arbitrary: st) (simp_all add: all_participants_def import_conversation_view)

lemma importConversations_view:
  assumes "importConversations env calls db convs importerId = (results, db')"
  shows "(map u_email (users db'), createdUsers results, skippedUsers results)
           = fold participant_step (all_participants convs) (map u_email (users db), [], [])"
proof -
  define demo_st0 where "demo_st0 = \<lparr>st_db = db, st_results = no_results, st_calls = calls\<rparr>"
  define st where "st = foldl (import_conversation env importerId) demo_st0 convs"
  have "results = st_results st" "db' = st_db st"
    using assms by (simp_all add: importConversations_def Let_def st_def demo_st0_def)
  then have "(map u_email (users db'), createdUsers results, skippedUsers results) = user_view st"
    by (simp add: user_view_def)
  also have "\<dots> = fold participant_step (all_participants convs) (user_view demo_st0)"
    unfolding st_def by (rule foldl_import_view)
  also have "user_view demo_st0 = (map u_email (users db), [], [])"
    by (simp add: user_view_def no_results_def demo_st0_def)
  finally show ?thesis .
qed

lemma participant_steps:
  assumes "fold participant_step ps (em, cr, sk) = (em', cr', sk')"
  shows "(\<forall>x \<in> set em. count_list em' x = count_list em x)
       \<and> (\<forall>x \<in> fst ` set cr'. x \<in> fst ` set cr
             \<or> (x \<notin> set em \<and> count_list em' x = 1 \<and> x \<in> ip_email ` set ps))
       \<and> (\<forall>p \<in> set ps. ip_email p \<in> set em \<longrightarrow> (ip_email p, ''User already exists'') \<in> set sk')
       \<and> set sk \<subseteq> set sk'"
  using assms
proof (induction ps arbitrary: em cr sk)
  case Nil
  then show ?case by auto
next
  case (Cons p ps)
  let ?e = "ip_email p"
  show ?case
  proof (cases "?e \<in> set em")
    case True
    then have "fold participant_step ps (em, cr, sk @ [(?e, ''User already exists'')]) = (em', cr', sk')"
      using Cons.prems by simp
    from Cons.IH [OF this] show ?thesis using True by auto
  next
    case False
    then have "fold participant_step ps (em @ [?e], cr @ [(?e, mapRole (ip_role p))], sk) = (em', cr', sk')"
      using Cons.prems by simp
    note ih = Cons.IH [OF this]
    have a: "\<forall>x \<in> set em. count_list em' x = count_list em x"
      using ih False by auto
    have e1: "count_list em' ?e = 1"
      using ih False by simp
    have b: "\<forall>x \<in> fst ` set cr'. x \<in> fst ` set cr
             \<or> (x \<notin> set em \<and> count_list em' x = 1 \<and> x \<in> ip_email ` set (p # ps))"
    proof
      fix x assume "x \<in> fst ` set cr'"
      then consider "x \<in> fst ` set (cr @ [(?e, mapRole (ip_role p))])"
        | "x \<notin> set (em @ [?e])" "count_list em' x = 1" "x \<in> ip_email ` set ps"
        using ih by blast
      then show "x \<in> fst ` set cr
             \<or> (x \<notin> set em \<and> count_list em' x = 1 \<and> x \<in> ip_email ` set (p # ps))"
      proof cases
        case 1
        then have "x \<in> fst ` set cr \<or> x = ?e" by auto
        then show ?thesis using False e1 by auto
      next
        case 2
        then show ?thesis by auto
      qed
    qed
    have c: "\<forall>q \<in> set (p # ps). ip_email q \<in> set em \<longrightarrow> (ip_email q, ''User already exists'') \<in> set sk'"
      using ih False by auto
    have d: "set sk \<subseteq> set sk'" using ih by simp
    show ?thesis using a b c d by blast
  qed
qed

lemma count_list_map_filter:
  "count_list (map f xs) y = length (filter (\<lambda>x. f x = y) xs)"
  by (induction xs) simp_all

text \<open>
  Claim C6. Run the import routine on a list of bundles, and run it again on the same list
  in the store the first run left (the outside services may answer differently the second
  time). Every email whose user the first run created is reported by the second run as
  skipped with the reason "User already exists", and after both runs the users table
  holds exactly one row with that email.
\<close>

theorem import_twice_users:
  assumes "(email, role) \<in> set (createdUsers (fst (importConversations env1 calls1 db convs importer1)))"
  shows "(email, ''User already exists'')
           \<in> set (skippedUsers (fst (importConversations env2 calls2
                   (snd (importConversations env1 calls1 db convs importer1)) convs importer2)))
       \<and> length (filter (\<lambda>u. u_email u = email)
                  (users (snd (importConversations env2 calls2
                     (snd (importConversations env1 calls1 db convs importer1)) convs importer2)))) = 1"
proof -
  obtain results1 db1 where r1: "importConversations env1 calls1 db convs importer1 = (results1, db1)"
    by (cases "importConversations env1 calls1 db convs importer1")
  obtain results2 db2 where r2: "importConversations env2 calls2 db1 convs importer2 = (results2, db2)"
    by (cases "importConversations env2 calls2 db1 convs importer2")
  let ?ps = "all_participants convs"
  have f1: "fold participant_step ?ps (map u_email (users db), [], [])
              = (map u_email (users db1), createdUsers results1, skippedUsers results1)"
    using importConversations_view [OF r1] by simp
  have f2: "fold participant_step ?ps (map u_email (users db1), [], [])
              = (map u_email (users db2), createdUsers results2, skippedUsers results2)"
    using importConversations_view [OF r2] by simp
  have cr: "email \<in> fst ` set (createdUsers results1)"
    using assms r1 by force
  have one: "count_list (map u_email (users db1)) email = 1" and inps: "email \<in> ip_email ` set ?ps"
    using participant_steps [OF f1] cr by auto
  have mem: "email \<in> set (map u_email (users db1))"
    using one count_list_0_iff [of "map u_email (users db1)" email] by auto
  obtain p where p: "p \<in> set ?ps" "ip_email p = email" using inps by auto
  have sk: "(email, ''User already exists'') \<in> set (skippedUsers results2)"
    using participant_steps [OF f2] p mem by blast
  have "count_list (map u_email (users db2)) email = count_list (map u_email (users db1)) email"
    using participant_steps [OF f2] mem by blast
  then have "length (filter (\<lambda>u. u_email u = email) (users db2)) = 1"
    using one by (simp add: count_list_map_filter)
  then show ?thesis using sk by (simp add: r1 r2)
qed

lemma mapRole_demo: "mapRole ''doctor'' = DOCTOR" "mapRole ''Dr'' = DOCTOR" "mapRole ''user'' = PATIENT"
  by code_simp+

lemma getUserByEmail_stable:
  assumes "users db' = users db @ ys" and "getUserByEmail db e = Some u"
  shows "getUserByEmail db' e = Some u"
  using assms by (auto simp: getUserByEmail_def db_get_def split: list.splits)

lemma find_or_create_user_resolves:
  assumes "find_or_create_user env st p = (r, st1)"
  shows "\<exists>u ys. r = Some u \<and> getUserByEmail (st_db st1) (ip_email p) = Some u
           \<and> users (st_db st1) = users (st_db st) @ ys
           \<and> conversations (st_db st1) = conversations (st_db st)"
proof (cases "getUserByEmail (st_db st) (ip_email p)")
  case None
  obtain i db' u where c: "createUser (env_hashSync env) (env_now env) (st_db st) (ip_email p)
        (env_generateTempPassword env (st_calls st)) (mapRole (ip_role p)) (ip_display_name p) = Some (i, db')"
    and u: "getUserById db' i = Some u" "u_email u = ip_email p" "users db' = users (st_db st) @ [u]"
    using createUser_result [OF None] by metis
  have cv: "conversations db' = conversations (st_db st)"
    using c by (auto simp: createUser_def Let_def split: if_splits)
  have no: "\<forall>v \<in> set (users (st_db st)). u_email v \<noteq> ip_email p"
    using None unfolding getUserByEmail_None_iff by force
  have g: "getUserByEmail db' (ip_email p) = Some u"
    using no u(2,3) by (simp add: getUserByEmail_def db_get_def)
  have "r = Some u" "st_db st1 = db'"
    using assms None c u(1) by (auto simp: find_or_create_user_def Let_def push_created_def)
  then show ?thesis using g u(3) cv by simp
next
  case (Some u)
  then have "r = Some u" "st_db st1 = st_db st"
    using assms by (auto simp: find_or_create_user_def push_skipped_def)
  then show ?thesis using Some by simp
qed

lemma participant_loop_extends:
  "participant_loop env ps (ids, d, st) = (ids', d', st') \<Longrightarrow>
     (\<exists>ys. users (st_db st') = users (st_db st) @ ys)
     \<and> conversations (st_db st') = conversations (st_db st)"
proof (induction ps arbitrary: ids d st)
  case Nil
  then show ?case by simp
next
  case (Cons p ps)
  obtain r st1 where f: "find_or_create_user env st p = (r, st1)"
    by (cases "find_or_create_user env st p")
  obtain u ys where u: "r = Some u" "users (st_db st1) = users (st_db st) @ ys"
      "conversations (st_db st1) = conversations (st_db st)"
    using find_or_create_user_resolves [OF f] by blast
  have "participant_loop env ps
        (ids @ [u_id u], (if u_role u = DOCTOR then Some (u_id u) else d), st1) = (ids', d', st')"
    using Cons.prems f u(1) by simp
  from Cons.IH [OF this] show ?case using u(2,3) by auto
qed

lemma participant_loop_doctorId:
  "participant_loop env ps (ids, d, st) = (ids', d', st') \<Longrightarrow>
     d' = (case filter (\<lambda>u. u_role u = DOCTOR) (resolved_users (st_db st') ps) of
             [] \<Rightarrow> d
           | u # us \<Rightarrow> Some (u_id (last (u # us))))
     \<and> ids' = ids @ map u_id (resolved_users (st_db st') ps)"
proof (induction ps arbitrary: ids d st)
  case Nil
  then show ?case by (simp add: resolved_users_def)
next
  case (Cons p ps)
  obtain r st1 where f: "find_or_create_user env st p = (r, st1)"
    by (cases "find_or_create_user env st p")
  obtain u where u: "r = Some u" "getUserByEmail (st_db st1) (ip_email p) = Some u"
    using find_or_create_user_resolves [OF f] by blast
  let ?d1 = "if u_role u = DOCTOR then Some (u_id u) else d"
  have l: "participant_loop env ps (ids @ [u_id u], ?d1, st1) = (ids', d', st')"
    using Cons.prems f u(1) by simp
  obtain ys where "users (st_db st') = users (st_db st1) @ ys"
    using participant_loop_extends [OF l] by blast
  then have g: "getUserByEmail (st_db st') (ip_email p) = Some u"
    using u(2) by (rule getUserByEmail_stable)
  have rs: "resolved_users (st_db st') (p # ps) = u # resolved_users (st_db st') ps"
    by (simp add: resolved_users_def g)
  show ?case
    using Cons.IH [OF l]
    by (auto simp: rs split: list.splits)
qed

lemma successful_find_or_create_user:
  "find_or_create_user env st p = (r, st1) \<Longrightarrow>
     successful (st_results st1) = successful (st_results st)"
  by (auto simp: find_or_create_user_def Let_def push_created_def push_skipped_def
      split: option.splits)

lemma successful_participant_loop:
  "participant_loop env ps (ids, d, st) = (ids', d', st') \<Longrightarrow>
     successful (st_results st') = successful (st_results st)"
proof (induction ps arbitrary: ids d st)
  case Nil
  then show ?case by simp
next
  case (Cons p ps)
  obtain r st1 where f: "find_or_create_user env st p = (r, st1)"
    by (cases "find_or_create_user env st p")
  show ?case
    using Cons.prems Cons.IH successful_find_or_create_user [OF f]
    by (cases r) (auto simp: f)
qed

lemma createConversation_row:
  "createConversation now db t ty c th d = Some (i, db1) \<Longrightarrow>
     \<exists>row. conversations db1 = conversations db @ [row] \<and> c_assigned_doctor_id row = d
       \<and> c_id row = i \<and> users db1 = users db"
  by (auto simp: createConversation_def Let_def split: if_splits)

lemma conversations_add_participants [simp]:
  "conversations (add_participants now cid ids db) = conversations db"
  by (induction ids arbitrary: db)
     (auto simp: addConversationParticipant_def insert_participant_def Let_def)

lemma conversations_addConversationMetadata [simp]:
  "conversations (addConversationMetadata db cid k v) = conversations db"
  by (simp add: addConversationMetadata_def Let_def)

lemma conversations_add_import_metadata [simp]:
  "conversations (add_import_metadata env imp cid c n db) = conversations db"
  by (simp add: add_import_metadata_def Let_def)

lemma resolved_users_cong:
  "users db' = users db \<Longrightarrow> resolved_users db' ps = resolved_users db ps"
  by (simp add: resolved_users_def getUserByEmail_def)

lemma successful_push_failed [simp]:
  "successful (st_results (push_failed e st)) = successful (st_results st)"
  by (simp add: push_failed_def)

lemma store_conversation_success:
  assumes "successful (st_results (store_conversation env importerId convData title n ids d
              creatorId threadId st2)) = Suc (successful (st_results st2))"
  shows "\<exists>row db1. conversations db1 = conversations (st_db st2) @ [row]
           \<and> c_assigned_doctor_id row = d \<and> users db1 = users (st_db st2)
           \<and> st_db (store_conversation env importerId convData title n ids d creatorId threadId st2)
               = add_import_metadata env importerId (c_id row) convData n
                   (add_participants (env_now env) (c_id row) ids db1)"
proof (cases "createConversation (env_now env) (st_db st2) title
                (import_conversation_type (icd_type convData)) creatorId threadId d")
  case None
  then show ?thesis using assms by (simp add: store_conversation_def)
next
  case (Some r)
  obtain cid db1 where r: "r = (cid, db1)" by (cases r)
  obtain row where row: "conversations db1 = conversations (st_db st2) @ [row]"
      "c_assigned_doctor_id row = d" "c_id row = cid" "users db1 = users (st_db st2)"
    using createConversation_row [OF Some [unfolded r]] by blast
  have "st_db (store_conversation env importerId convData title n ids d creatorId threadId st2)
      = add_import_metadata env importerId cid convData n
          (add_participants (env_now env) cid ids db1)"
    by (simp add: store_conversation_def Some r)
  then show ?thesis using row by auto
qed

lemma after_participants_success:
  assumes "successful (st_results (after_participants env importerId convData title n (ids, d, st1)))
             = Suc (successful (st_results st1))"
  shows "\<exists>row db3. conversations db3 = conversations (st_db st1) @ [row]
           \<and> c_assigned_doctor_id row = d \<and> users db3 = users (st_db st1)
           \<and> st_db (after_participants env importerId convData title n (ids, d, st1)) = db3"
proof (cases ids)
  case Nil
  then show ?thesis using assms by simp
next
  case (Cons creatorId rest)
  show ?thesis
  proof (cases "truthy_string (env_createThread env (st_calls st1))")
    case None
    then show ?thesis using assms Cons by simp
  next
    case (Some threadId)
    let ?st2 = "st1\<lparr>st_calls := Suc (st_calls st1)\<rparr>"
    have "successful (st_results (store_conversation env importerId convData title n ids d
              creatorId threadId ?st2)) = Suc (successful (st_results ?st2))"
      using assms Cons Some by simp
    from store_conversation_success [OF this]
    obtain row db1 where row: "conversations db1 = conversations (st_db st1) @ [row]"
        "c_assigned_doctor_id row = d" "users db1 = users (st_db st1)"
        "st_db (store_conversation env importerId convData title n ids d creatorId threadId ?st2)
           = add_import_metadata env importerId (c_id row) convData n
               (add_participants (env_now env) (c_id row) ids db1)"
      by auto
    have fin: "st_db (after_participants env importerId convData title n (ids, d, st1))
        = add_import_metadata env importerId (c_id row) convData n
               (add_participants (env_now env) (c_id row) ids db1)"
      using row(4) Cons Some by simp
    show ?thesis
      unfolding fin using row(1,2,3) by simp
  qed
qed

lemma import_conversation_success:
  assumes v: "truthy_string (icd_title convData) = Some title"
      "icd_participants convData = Some participants" "icd_messages convData = Some messages"
    and s: "successful (st_results (import_conversation env importerId st convData))
              = Suc (successful (st_results st))"
  shows "\<exists>row. conversations (st_db (import_conversation env importerId st convData))
                  = conversations (st_db st) @ [row]
           \<and> c_assigned_doctor_id row
               = last_responder_id (st_db (import_conversation env importerId st convData)) participants"
proof -
  obtain ids d st1 where l: "participant_loop env participants ([], None, st) = (ids, d, st1)"
    by (cases "participant_loop env participants ([], None, st)")
  have s1: "successful (st_results st1) = successful (st_results st)"
    by (rule successful_participant_loop [OF l])
  have c1: "conversations (st_db st1) = conversations (st_db st)"
    using participant_loop_extends [OF l] by simp
  have d: "d = last_responder_id (st_db st1) participants"
    using participant_loop_doctorId [OF l] by (simp add: last_responder_id_def)
  have eq: "import_conversation env importerId st convData
      = after_participants env importerId convData title (length messages) (ids, d, st1)"
    by (simp add: import_conversation_def v l)
  have "successful (st_results (after_participants env importerId convData title (length messages)
          (ids, d, st1))) = Suc (successful (st_results st1))"
    using s by (simp add: eq s1)
  from after_participants_success [OF this]
  obtain row db3 where row: "conversations db3 = conversations (st_db st1) @ [row]"
      "c_assigned_doctor_id row = d" "users db3 = users (st_db st1)"
      "st_db (after_participants env importerId convData title (length messages) (ids, d, st1)) = db3"
    by blast
  have "last_responder_id db3 participants = last_responder_id (st_db st1) participants"
    by (simp add: last_responder_id_def resolved_users_cong [OF row(3)])
  then show ?thesis
    unfolding eq row(4) using row(1,2) c1 d by simp
qed

text \<open>
  Claim C5, amended. When the routine imports a bundle (the bundle has its required fields
  and the count of successful imports goes up), it adds one conversation row, and the
  assigned-responder id of that row is the id of the last participant of the bundle's list
  that resolved to a user with the responder role; it is empty when no participant did.
\<close>

theorem imported_conversation_assigned_responder:
  assumes "truthy_string (icd_title convData) = Some title"
    and "icd_participants convData = Some participants"
    and "icd_messages convData = Some messages"
    and "successful (st_results (import_conversation env importerId st convData))
           = Suc (successful (st_results st))"
  shows "\<exists>row. conversations (st_db (import_conversation env importerId st convData))
                  = conversations (st_db st) @ [row]
           \<and> c_assigned_doctor_id row
               = last_responder_id (st_db (import_conversation env importerId st convData)) participants"
  using assms by (rule import_conversation_success)

lemma import_conversation_succeeds:
  assumes v: "truthy_string (icd_title convData) = Some title"
      "icd_participants convData = Some participants" "icd_messages convData = Some messages"
    and l: "participant_loop env participants ([], None, st) = (creatorId # rest, d, st1)"
    and t: "truthy_string (env_createThread env (st_calls st1)) = Some threadId"
    and u: "\<forall>c \<in> set (conversations (st_db st)). c_thread_id c \<noteq> threadId"
  shows "successful (st_results (import_conversation env importerId st convData))
           = Suc (successful (st_results st))"
proof -
  have c1: "conversations (st_db st1) = conversations (st_db st)"
    using participant_loop_extends [OF l] by simp
  have s1: "successful (st_results st1) = successful (st_results st)"
    by (rule successful_participant_loop [OF l])
  obtain cid db1 where c: "createConversation (env_now env) (st_db st1) title
      (import_conversation_type (icd_type convData)) creatorId threadId d = Some (cid, db1)"
    using u by (simp add: createConversation_def c1 Let_def)
  show ?thesis
    by (simp add: import_conversation_def v l t store_conversation_def c s1)
qed

lemma demo_bundle_fields:
  "truthy_string (icd_title demo_bundle) = Some ''Second opinion''"
  "icd_participants demo_bundle = Some demo_participants"
  "icd_messages demo_bundle = Some []"
  by (simp_all add: demo_bundle_def truthy_string_def)

lemmas loop_eval = find_or_create_user_def demo_st0_def demo_participants_def
  seeded_db_def demo_user_def getUserByEmail_def db_get_def demo_participant_def createUser_def
  lastID_def Let_def demo_env_def mapRole_demo getUserById_def push_created_def push_skipped_def
  no_results_def

lemma demo_loop:
  "fst (participant_loop demo_env demo_participants ([], None, demo_st0)) = [3, 4, 5]"
  "fst (snd (participant_loop demo_env demo_participants ([], None, demo_st0))) = Some 4"
  "st_calls (snd (snd (participant_loop demo_env demo_participants ([], None, demo_st0)))) = 3"
  "map u_id (users (st_db (snd (snd (participant_loop demo_env demo_participants ([], None, demo_st0)))))) = [1, 2, 3, 4, 5]"
  "map u_email (users (st_db (snd (snd (participant_loop demo_env demo_participants ([], None, demo_st0))))))
     = [''admin@example.com'', ''quality@example.com'', ''adams@clinic.example'',
        ''brown@clinic.example'', ''carol@mail.example'']"
  "map u_role (users (st_db (snd (snd (participant_loop demo_env demo_participants ([], None, demo_st0))))))
     = [ADMIN, QUALITY, DOCTOR, DOCTOR, PATIENT]"
  by (simp_all add: loop_eval)

lemma demo_loop_eq:
  "participant_loop demo_env demo_participants ([], None, demo_st0) = (3 # [4, 5], Some 4, demo_st1)"
  using demo_loop(1,2) unfolding demo_st1_def
  by (cases "participant_loop demo_env demo_participants ([], None, demo_st0)") simp

lemma demo_thread:
  "truthy_string (env_createThread demo_env (st_calls demo_st1)) = Some ''19:thread-a''"
proof -
  have "st_calls demo_st1 = 3" by (simp add: demo_st1_def demo_loop(3))
  then show ?thesis by (simp add: demo_env_def truthy_string_def)
qed

lemma demo_no_threads: "\<forall>c \<in> set (conversations (st_db demo_st0)). c_thread_id c \<noteq> ''19:thread-a''"
  by (simp add: demo_st0_def seeded_db_def)

lemma demo_import_successful:
  "successful (st_results (import_conversation demo_env 1 demo_st0 demo_bundle))
     = Suc (successful (st_results demo_st0))"
  by (rule import_conversation_succeeds [OF demo_bundle_fields demo_loop_eq demo_thread demo_no_threads])

lemma users_store_conversation:
  "users (st_db (store_conversation env importerId convData title n ids d creatorId threadId st2))
     = users (st_db st2)"
  by (auto simp: store_conversation_def push_failed_def
      split: option.splits dest: users_createConversation)

lemma users_after_participants:
  "users (st_db (after_participants env importerId convData title n (ids, d, st1)))
     = users (st_db st1)"
  by (cases ids) (simp_all add: users_store_conversation push_failed_def split: option.splits)

lemma demo_import_users:
  "users (st_db (import_conversation demo_env 1 demo_st0 demo_bundle)) = users (st_db demo_st1)"
  by (simp add: import_conversation_def demo_bundle_fields demo_loop_eq users_after_participants
      del: after_participants.simps)

lemma spec_first_responder_id_cong:
  "users db' = users db \<Longrightarrow> spec_first_responder_id db' ps = spec_first_responder_id db ps"
  by (simp add: spec_first_responder_id_def resolved_users_def getUserByEmail_def)

lemma last_responder_id_cong:
  "users db' = users db \<Longrightarrow> last_responder_id db' ps = last_responder_id db ps"
  by (simp add: last_responder_id_def resolved_users_def getUserByEmail_def)

lemma demo_responders:
  "spec_first_responder_id (st_db demo_st1) demo_participants = Some 3"
  "last_responder_id (st_db demo_st1) demo_participants = Some 4"
  by (simp_all add: demo_st1_def spec_first_responder_id_def last_responder_id_def
      resolved_users_def List.map_filter_def loop_eval)

lemma demo_run:
  "snd (importConversations demo_env 0 seeded_db [demo_bundle] 1)
     = st_db (import_conversation demo_env 1 demo_st0 demo_bundle)"
  "fst (importConversations demo_env 0 seeded_db [demo_bundle] 1)
     = st_results (import_conversation demo_env 1 demo_st0 demo_bundle)"
  by (simp_all add: importConversations_def demo_st0_def Let_def)

text \<open>
  Claim C5 as stated fails: in the example bundle the first participant that resolves to a
  responder is adams (user 3) and the second is brown (user 4); the conversation the import
  creates is assigned to user 4.
\<close>

theorem imported_conversation_first_responder_counterexample:
  "icd_participants demo_bundle = Some demo_participants
   \<and> map c_assigned_doctor_id
        (conversations (snd (importConversations demo_env 0 seeded_db [demo_bundle] 1))) = [Some 4]
   \<and> spec_first_responder_id (snd (importConversations demo_env 0 seeded_db [demo_bundle] 1))
        demo_participants = Some 3"
proof -
  obtain row where row:
    "conversations (st_db (import_conversation demo_env 1 demo_st0 demo_bundle))
       = conversations (st_db demo_st0) @ [row]"
    "c_assigned_doctor_id row
       = last_responder_id (st_db (import_conversation demo_env 1 demo_st0 demo_bundle)) demo_participants"
    using import_conversation_success [OF demo_bundle_fields demo_import_successful] by blast
  have "c_assigned_doctor_id row = Some 4"
    using row(2) last_responder_id_cong [OF demo_import_users] demo_responders(2) by simp
  then have "map c_assigned_doctor_id (conversations (st_db (import_conversation demo_env 1 demo_st0 demo_bundle)))
      = [Some 4]"
    using row(1) by (simp add: demo_st0_def seeded_db_def)
  moreover have "spec_first_responder_id (st_db (import_conversation demo_env 1 demo_st0 demo_bundle))
      demo_participants = Some 3"
    using spec_first_responder_id_cong [OF demo_import_users] demo_responders(1) by simp
  ultimately show ?thesis
    by (simp add: demo_run demo_bundle_fields)
qed

text \<open>Claim C5 amended, on the example bundle: the last responder of the list is user 4.\<close>

theorem imported_conversation_assigned_responder_witness:
  "truthy_string (icd_title demo_bundle) = Some ''Second opinion''
   \<and> icd_participants demo_bundle = Some demo_participants
   \<and> icd_messages demo_bundle = Some []
   \<and> successful (st_results (import_conversation demo_env 1 demo_st0 demo_bundle))
       = Suc (successful (st_results demo_st0))
   \<and> (\<exists>row. conversations (st_db (import_conversation demo_env 1 demo_st0 demo_bundle))
                  = conversations (st_db demo_st0) @ [row]
           \<and> c_assigned_doctor_id row = Some 4)
   \<and> last_responder_id (st_db (import_conversation demo_env 1 demo_st0 demo_bundle)) demo_participants
       = Some 4"
proof -
  have r: "last_responder_id (st_db (import_conversation demo_env 1 demo_st0 demo_bundle)) demo_participants
       = Some 4"
    using last_responder_id_cong [OF demo_import_users] demo_responders(2) by simp
  show ?thesis
    using imported_conversation_assigned_responder [OF demo_bundle_fields demo_import_successful]
      demo_bundle_fields demo_import_successful r
    by simp
qed

lemma demo_created:
  "createdUsers (st_results (import_conversation demo_env 1 demo_st0 demo_bundle))
     = [(''adams@clinic.example'', DOCTOR), (''brown@clinic.example'', DOCTOR),
        (''carol@mail.example'', PATIENT)]"
proof -
  have "user_view (import_conversation demo_env 1 demo_st0 demo_bundle)
      = fold participant_step demo_participants (user_view demo_st0)"
    by (simp add: import_conversation_view bundle_participants_def demo_bundle_fields)
  also have "\<dots> = ([''admin@example.com'', ''quality@example.com'', ''adams@clinic.example'',
        ''brown@clinic.example'', ''carol@mail.example''],
       [(''adams@clinic.example'', DOCTOR), (''brown@clinic.example'', DOCTOR),
        (''carol@mail.example'', PATIENT)], [])"
    by (simp add: user_view_def demo_st0_def seeded_db_def demo_user_def no_results_def
        demo_participants_def demo_participant_def mapRole_demo)
  finally show ?thesis by (simp add: user_view_def)
qed

text \<open>Claim C6, on the example bundle imported twice into the seeded store.\<close>

theorem import_twice_users_witness:
  "(''adams@clinic.example'', DOCTOR)
      \<in> set (createdUsers (fst (importConversations demo_env 0 seeded_db [demo_bundle] 1)))
   \<and> (''adams@clinic.example'', ''User already exists'')
      \<in> set (skippedUsers (fst (importConversations demo_env 0
               (snd (importConversations demo_env 0 seeded_db [demo_bundle] 1)) [demo_bundle] 1)))
   \<and> length (filter (\<lambda>u. u_email u = ''adams@clinic.example'')
        (users (snd (importConversations demo_env 0
               (snd (importConversations demo_env 0 seeded_db [demo_bundle] 1)) [demo_bundle] 1)))) = 1"
proof -
  have c: "(''adams@clinic.example'', DOCTOR)
      \<in> set (createdUsers (fst (importConversations demo_env 0 seeded_db [demo_bundle] 1)))"
    by (simp add: demo_run demo_created)
  show ?thesis
    using import_twice_users [OF c, of demo_env 0 1] c by simp
qed

section \<open>Rounding to the nearest double\<close>

lemma round_half_even_error: "\<bar>of_int (round_half_even x) - x\<bar> \<le> 1 / 2"
proof -
  have "of_int \<lfloor>x\<rfloor> \<le> x" "x < of_int \<lfloor>x\<rfloor> + 1" by linarith+
  then show ?thesis
    by (auto simp: round_half_even_def Let_def abs_le_iff)
qed

lemma round_half_even_of_int [simp]: "round_half_even (of_int k) = k"
  by (simp add: round_half_even_def)

lemma powi2_diff: "(2::rat) powi (m - n) = 2 powi m / 2 powi n"
  by (simp add: power_int_diff)

lemma ilog2_bounds:
  assumes "0 < x"
  shows "2 powi (ilog2 x) \<le> x" and "x < 2 powi (ilog2 x + 1)"
proof -
  obtain p q where pq: "quotient_of x = (p, q)" by (cases "quotient_of x")
  have q: "0 < q" using quotient_of_denom_pos [OF pq] .
  have x: "x = of_int p / of_int q" using quotient_of_div [OF pq] .
  have p: "0 < p" using assms q unfolding x by (simp add: zero_less_divide_iff)
  define a where "a = bitlen p"
  define b where "b = bitlen q"
  have a1: "1 \<le> a" and b1: "1 \<le> b"
    using p q bitlen_eq_zero_iff [of p] bitlen_eq_zero_iff [of q] bitlen_nonneg [of p] bitlen_nonneg [of q]
    unfolding a_def b_def by linarith+
  have pb: "2 ^ nat (a - 1) \<le> p" "p < 2 ^ nat a"
    using bitlen_bounds [OF p] unfolding a_def by auto
  have qb: "2 ^ nat (b - 1) \<le> q" "q < 2 ^ nat b"
    using bitlen_bounds [OF q] unfolding b_def by auto
  have pr: "(2::rat) powi (a - 1) \<le> of_int p" "(of_int p :: rat) < 2 powi a"
  proof -
    have "(of_int (2 ^ nat (a - 1)) :: rat) \<le> of_int p" using pb(1) by (simp only: of_int_le_iff)
    then show "(2::rat) powi (a - 1) \<le> of_int p" using a1 by (simp add: power_int_def)
    have "(of_int p :: rat) < of_int (2 ^ nat a)" using pb(2) by (simp only: of_int_less_iff)
    then show "(of_int p :: rat) < 2 powi a" using a1 by (simp add: power_int_def)
  qed
  have qr: "(2::rat) powi (b - 1) \<le> of_int q" "(of_int q :: rat) < 2 powi b"
  proof -
    have "(of_int (2 ^ nat (b - 1)) :: rat) \<le> of_int q" using qb(1) by (simp only: of_int_le_iff)
    then show "(2::rat) powi (b - 1) \<le> of_int q" using b1 by (simp add: power_int_def)
    have "(of_int q :: rat) < of_int (2 ^ nat b)" using qb(2) by (simp only: of_int_less_iff)
    then show "(of_int q :: rat) < 2 powi b" using b1 by (simp add: power_int_def)
  qed
  have qpos: "(0::rat) < of_int q" using q by simp
  have ppos: "(0::rat) < of_int p" using p by simp
  have up: "x < 2 powi (a - b + 1)"
  proof -
    have "x < 2 powi a / of_int q"
      unfolding x using pr(2) qpos by (simp add: divide_strict_right_mono)
    also have "\<dots> \<le> 2 powi a / 2 powi (b - 1)"
      using qr(1) qpos by (intro divide_left_mono) (simp_all add: zero_less_mult_iff)
    also have "\<dots> = 2 powi (a - (b - 1))"
      by (simp only: powi2_diff)
    also have "a - (b - 1) = a - b + 1" by simp
    finally show ?thesis .
  qed
  have lo: "2 powi (a - b - 1) < x"
  proof -
    have "a - b - 1 = (a - 1) - b" by simp
    then have "(2::rat) powi (a - b - 1) = 2 powi (a - 1) / 2 powi b"
      by (simp only: powi2_diff)
    also have "\<dots> < 2 powi (a - 1) / of_int q"
      using qr(2) qpos by (intro divide_strict_left_mono) (simp_all add: zero_less_mult_iff)
    also have "\<dots> \<le> x"
      unfolding x using pr(1) qpos by (simp add: divide_right_mono)
    finally show ?thesis .
  qed
  have e: "ilog2 x = (if 2 powi (a - b) \<le> x then a - b else a - b - 1)"
    by (simp add: ilog2_def pq a_def b_def Let_def)
  show "2 powi (ilog2 x) \<le> x"
    using lo by (simp add: e)
  show "x < 2 powi (ilog2 x + 1)"
    using up by (auto simp: e not_le)
qed

lemma ilog2_nonneg:
  assumes "1 \<le> x"
  shows "0 \<le> ilog2 x"
proof (rule ccontr)
  assume "\<not> 0 \<le> ilog2 x"
  then have "ilog2 x + 1 \<le> 0" by simp
  then have "(2::rat) powi (ilog2 x + 1) \<le> 2 powi 0"
    by (intro power_int_increasing) simp_all
  then have "(2::rat) powi (ilog2 x + 1) \<le> 1" by simp
  moreover have "x < 2 powi (ilog2 x + 1)" using assms by (intro ilog2_bounds) simp
  ultimately show False using assms by simp
qed

lemma fl_positive:
  assumes "1 \<le> x"
  shows "fl x = of_int (round_half_even (x / 2 powi (ilog2 x - 52))) * 2 powi (ilog2 x - 52)"
proof -
  have "max (ilog2 x) (- 1022) = ilog2 x" using ilog2_nonneg [OF assms] by simp
  moreover have "\<bar>x\<bar> = x" "sgn x = 1" "x \<noteq> 0" using assms by simp_all
  ultimately show ?thesis by (simp add: fl_def Let_def)
qed

lemma fl_error:
  assumes "1 \<le> x"
  shows "\<bar>fl x - x\<bar> \<le> x / 2 ^ 53"
proof -
  define e where "e = ilog2 x"
  define ulp :: rat where "ulp = 2 powi (e - 52)"
  define r where "r = round_half_even (x / ulp)"
  have x0: "0 < x" using assms by simp
  have ulp0: "0 < ulp" by (simp add: ulp_def)
  have f: "fl x = of_int r * ulp"
    using fl_positive [OF assms] by (simp add: r_def ulp_def e_def)
  have "\<bar>of_int r - x / ulp\<bar> \<le> 1 / 2"
    unfolding r_def by (rule round_half_even_error)
  then have "\<bar>of_int r - x / ulp\<bar> * ulp \<le> 1 / 2 * ulp"
    using ulp0 by (intro mult_right_mono) simp_all
  moreover have "\<bar>of_int r - x / ulp\<bar> * ulp = \<bar>of_int r * ulp - x\<bar>"
  proof -
    have "\<bar>of_int r - x / ulp\<bar> * ulp = \<bar>(of_int r - x / ulp) * ulp\<bar>"
      using ulp0 by (simp add: abs_mult)
    also have "(of_int r - x / ulp) * ulp = of_int r * ulp - x"
      using ulp0 by (simp add: algebra_simps)
    finally show ?thesis .
  qed
  ultimately have err: "\<bar>fl x - x\<bar> \<le> ulp / 2" by (simp add: f)
  have "ulp = 2 powi e / 2 powi 52" unfolding ulp_def by (simp only: powi2_diff)
  then have "ulp / 2 = 2 powi e / 2 ^ 53" by simp
  also have "\<dots> \<le> x / 2 ^ 53"
    using ilog2_bounds(1) [OF x0] by (simp add: e_def divide_right_mono)
  finally show ?thesis using err by simp
qed

lemma fl_of_int:
  assumes "0 \<le> k" and "k < 2 ^ 53"
  shows "fl (of_int k) = of_int k"
proof (cases "k = 0")
  case True
  then show ?thesis by (simp add: fl_def)
next
  case False
  then have k1: "1 \<le> k" using assms(1) by simp
  then have x1: "(1::rat) \<le> of_int k" by simp
  define e where "e = ilog2 (of_int k)"
  have e0: "0 \<le> e" unfolding e_def by (rule ilog2_nonneg [OF x1])
  have "(2::rat) powi e \<le> of_int k" unfolding e_def using x1 by (intro ilog2_bounds) simp
  also have "(of_int k :: rat) < 2 ^ 53" using assms(2) by (metis of_int_less_iff of_int_numeral of_int_power)
  finally have "(2::rat) powi e < 2 powi 53" by simp
  then have "e < 53"
    by (intro power_int_le_imp_less_exp [of "2::rat" e 53]) simp_all
  then have e52: "e \<le> 52" by simp
  define n where "n = nat (52 - e)"
  have ulp: "(2::rat) powi (e - 52) = 1 / 2 ^ n"
  proof -
    have "e - 52 = - int n" using e52 by (simp add: n_def)
    then have "(2::rat) powi (e - 52) = 2 powi (- int n)" by simp
    also have "\<dots> = inverse (2 powi (int n))" by (rule power_int_minus)
    also have "\<dots> = 1 / 2 ^ n" by (simp add: inverse_eq_divide)
    finally show ?thesis .
  qed
  have scaled: "of_int k / (2::rat) powi (e - 52) = of_int (k * 2 ^ n)"
    by (simp add: ulp)
  show ?thesis
    unfolding fl_positive [OF x1] e_def [symmetric] scaled round_half_even_of_int
    by (simp add: ulp)
qed

lemma foldl_js_add:
  "a + sum_list cs < 2 ^ 53 \<Longrightarrow>
     foldl (\<lambda>sum c. js_add sum (of_nat c)) (of_nat a) cs = of_nat (a + sum_list cs)"
proof (induction cs arbitrary: a)
  case Nil
  then show ?case by simp
next
  case (Cons c cs)
  have lt: "a + c < 2 ^ 53" using Cons.prems by simp
  have "js_add (of_nat a) (of_nat c) = fl (of_int (int (a + c)))"
    by (simp add: js_add_def)
  also have "\<dots> = of_int (int (a + c))"
  proof (rule fl_of_int)
    show "0 \<le> int (a + c)" by simp
    have "int (a + c) < int (2 ^ 53)" using lt by (simp only: of_nat_less_iff)
    then show "int (a + c) < 2 ^ 53" by simp
  qed
  finally have step: "js_add (of_nat a) (of_nat c) = of_nat (a + c)" by simp
  have "(a + c) + sum_list cs < 2 ^ 53" using Cons.prems by (simp add: add.assoc)
  from Cons.IH [OF this] show ?case by (simp add: step add.assoc)
qed

lemma reduce_sum_exact: "sum_list counts < 2 ^ 53 \<Longrightarrow> reduce_sum counts = of_nat (sum_list counts)"
  using foldl_js_add [of 0 counts] by (simp add: reduce_sum_def)

lemma round_two_decimals:
  fixes s n :: nat
  assumes n: "1 \<le> n" and ns: "n \<le> s" and s: "s < 2 ^ 43"
  defines "x \<equiv> (of_nat s :: rat) / of_nat n"
  defines "m \<equiv> \<lfloor>fl (fl x * 100) + 1 / 2\<rfloor>"
  shows "\<bar>of_int m - 100 * x\<bar> \<le> 1 / 2"
proof -
  define N :: rat where "N = of_nat n"
  define S :: rat where "S = of_nat s"
  define u :: rat where "u = 1 / 2 ^ 53"
  have N0: "0 < N" using n by (simp add: N_def)
  have xSN: "x = S / N" by (simp add: x_def S_def N_def)
  have x1: "1 \<le> x" using ns N0 by (simp add: xSN S_def N_def)
  have u0: "0 < u" "u \<le> 1 / 2" by (simp_all add: u_def)
  define a where "a = fl x"
  have ea: "\<bar>a - x\<bar> \<le> x * u"
    using fl_error [OF x1] by (simp add: a_def u_def)
  have alo: "x * (1 - u) \<le> a" and ahi: "a \<le> x * (1 + u)"
    using ea by (simp_all add: abs_le_iff algebra_simps)
  have "x * (1 - u) \<ge> 1 / 2"
  proof -
    have "1 / 2 \<le> 1 * (1 - u)" using u0 by simp
    also have "\<dots> \<le> x * (1 - u)" using x1 u0 by (intro mult_right_mono) simp_all
    finally show ?thesis .
  qed
  then have a_half: "1 / 2 \<le> a" using alo by simp
  define y where "y = a * 100"
  have y1: "1 \<le> y" using a_half by (simp add: y_def)
  define p where "p = fl y"
  have ep: "\<bar>p - y\<bar> \<le> y * u"
    using fl_error [OF y1] by (simp add: p_def u_def)
  have yhi: "y \<le> 100 * x * (1 + u)" using ahi by (simp add: y_def)
  have "\<bar>p - 100 * x\<bar> \<le> \<bar>p - y\<bar> + \<bar>y - 100 * x\<bar>" by simp
  also have "\<bar>y - 100 * x\<bar> = 100 * \<bar>a - x\<bar>"
  proof -
    have "y - 100 * x = 100 * (a - x)" by (simp add: y_def algebra_simps)
    then have "\<bar>y - 100 * x\<bar> = \<bar>100 * (a - x)\<bar>" by (rule arg_cong)
    also have "\<dots> = \<bar>100\<bar> * \<bar>a - x\<bar>" by (rule abs_mult)
    finally show ?thesis by simp
  qed
  also have "\<bar>p - y\<bar> + 100 * \<bar>a - x\<bar> \<le> y * u + 100 * (x * u)"
    using ep ea by (intro add_mono) simp_all
  also have "\<dots> \<le> 100 * x * (1 + u) * u + 100 * (x * u)"
  proof -
    have "y * u \<le> 100 * x * (1 + u) * u"
      using yhi u0 by (intro mult_right_mono) simp_all
    then show ?thesis by simp
  qed
  also have "\<dots> = 100 * x * u * (2 + u)" by (simp add: algebra_simps)
  also have "\<dots> \<le> 100 * x * u * 3"
    using x1 u0 by (intro mult_left_mono) simp_all
  finally have d1: "\<bar>p - 100 * x\<bar> \<le> 300 * x * u" by simp
  have "300 * x * u < 1 / (2 * N)"
  proof -
    have "600 * s < 2 ^ 53"
    proof -
      have "600 * s < 1024 * 2 ^ 43" using s by simp
      then show ?thesis by simp
    qed
    then have "(of_nat (600 * s) :: rat) < of_nat (2 ^ 53)" by (simp only: of_nat_less_iff)
    then have "600 * S < 2 ^ 53" by (simp add: S_def)
    then have "600 * S * u < 1" by (simp add: u_def)
    then have "600 * S * u / (2 * N) < 1 / (2 * N)"
      using N0 by (intro divide_strict_right_mono) simp_all
    moreover have "600 * S * u / (2 * N) = 300 * x * u" using N0 by (simp add: xSN)
    ultimately show ?thesis by simp
  qed
  then have d: "\<bar>p - 100 * x\<bar> < 1 / (2 * N)" using d1 by simp
  have m_def': "m = \<lfloor>p + 1 / 2\<rfloor>" by (simp add: m_def p_def y_def a_def)
  have mp: "of_int m \<le> p + 1 / 2" "p + 1 / 2 < of_int m + 1"
    unfolding m_def' by linarith+
  define j where "j = 2 * (m * int n - 100 * int s)"
  have jr: "(of_int j :: rat) = 2 * N * (of_int m - 100 * x)"
    using N0 by (simp add: j_def xSN N_def S_def algebra_simps)
  have up: "of_int m - 100 * x < 1 / 2 + 1 / (2 * N)"
    using mp(1) d by (simp add: abs_less_iff)
  have lo: "- (1 / 2 + 1 / (2 * N)) < of_int m - 100 * x"
    using mp(2) d by (simp add: abs_less_iff)
  have "(of_int j :: rat) < N + 1"
  proof -
    have "2 * N * (of_int m - 100 * x) < 2 * N * (1 / 2 + 1 / (2 * N))"
      using up N0 by (intro mult_strict_left_mono) simp_all
    also have "\<dots> = N + 1" using N0 by (simp add: algebra_simps)
    finally show ?thesis by (simp add: jr)
  qed
  then have "(of_int j :: rat) < of_int (int n + 1)" by (simp add: N_def)
  then have "j < int n + 1" by (simp only: of_int_less_iff)
  then have j_le: "j \<le> int n" by simp
  have "- (N + 1) < (of_int j :: rat)"
  proof -
    have "2 * N * (- (1 / 2 + 1 / (2 * N))) < 2 * N * (of_int m - 100 * x)"
      using lo N0 by (intro mult_strict_left_mono) simp_all
    moreover have "2 * N * (- (1 / 2 + 1 / (2 * N))) = - (N + 1)"
      using N0 by (simp add: algebra_simps)
    ultimately show ?thesis by (simp add: jr)
  qed
  then have "(of_int (- (int n + 1)) :: rat) < of_int j" by (simp add: N_def)
  then have "- (int n + 1) < j" by (simp only: of_int_less_iff)
  then have j_ge: "- int n \<le> j" by simp
  have "\<bar>(of_int j :: rat)\<bar> \<le> N"
  proof -
    have "\<bar>j\<bar> \<le> int n" using j_le j_ge by simp
    then have "(of_int \<bar>j\<bar> :: rat) \<le> of_int (int n)" by (simp only: of_int_le_iff)
    then show ?thesis by (simp add: N_def)
  qed
  then have "2 * N * \<bar>of_int m - 100 * x\<bar> \<le> N"
    using N0 by (simp add: jr abs_mult)
  then show ?thesis using N0 by (simp add: field_simps)
qed

section \<open>Analytics over a date range\<close>

lemma sum_length_filter_groups:
  "(\<Sum>d \<in> f ` set rows. length (filter (\<lambda>c. f c = d) rows)) = length rows"
proof (induction rows)
  case Nil
  show ?case by simp
next
  case (Cons r rs)
  let ?F = "f ` set rs"
  let ?L = "\<lambda>d. length (filter (\<lambda>c. f c = d) rs)"
  have fin: "finite (insert (f r) ?F)" by simp
  have "(\<Sum>d \<in> f ` set (r # rs). length (filter (\<lambda>c. f c = d) (r # rs)))
      = (\<Sum>d \<in> insert (f r) ?F. (if d = f r then 1 else 0) + ?L d)"
    by (intro sum.cong) auto
  also have "\<dots> = (\<Sum>d \<in> insert (f r) ?F. (if d = f r then 1 else 0)) + (\<Sum>d \<in> insert (f r) ?F. ?L d)"
    by (rule sum.distrib)
  also have "(\<Sum>d \<in> insert (f r) ?F. (if d = f r then 1 else 0 :: nat)) = 1"
    using fin by (simp add: sum.delta' del: finite_insert)
  also have "(\<Sum>d \<in> insert (f r) ?F. ?L d) = (\<Sum>d \<in> ?F. ?L d)"
  proof (cases "f r \<in> ?F")
    case True
    then show ?thesis by (simp add: insert_absorb)
  next
    case False
    have "\<forall>c \<in> set rs. f c \<noteq> f r"
    proof (intro ballI notI)
      fix c assume "c \<in> set rs" "f c = f r"
      then have "f r \<in> f ` set rs" by (metis imageI)
      with False show False by simp
    qed
    then have "?L (f r) = 0" by (simp add: filter_empty_conv)
    then show ?thesis using False by simp
  qed
  also have "\<dots> = length rs" by (rule Cons.IH)
  finally show ?case by simp
qed

lemma group_by_date_counts:
  "sum_list (map dc_count (group_by_date DATE rows)) = length rows"
proof -
  let ?f = "\<lambda>c. DATE (c_created_at c)"
  let ?ks = "rev (sort (remdups (map ?f rows)))"
  have d: "distinct ?ks" by simp
  have s: "set ?ks = ?f ` set rows" by simp
  have "sum_list (map dc_count (group_by_date DATE rows))
      = sum_list (map (\<lambda>d. length (filter (\<lambda>c. ?f c = d) rows)) ?ks)"
    by (simp add: group_by_date_def comp_def)
  also have "\<dots> = (\<Sum>d \<in> set ?ks. length (filter (\<lambda>c. ?f c = d) rows))"
    using d by (rule sum_list_distinct_conv_sum_set)
  also have "\<dots> = length rows"
    unfolding s by (rule sum_length_filter_groups)
  finally show ?thesis .
qed

lemma group_by_date_positive:
  "\<forall>n \<in> set (map dc_count (group_by_date DATE rows)). 1 \<le> n"
proof -
  have "\<And>d. d \<in> (\<lambda>c. DATE (c_created_at c)) ` set rows \<Longrightarrow>
      1 \<le> length (filter (\<lambda>c. DATE (c_created_at c) = d) rows)"
  proof -
    fix d assume "d \<in> (\<lambda>c. DATE (c_created_at c)) ` set rows"
    then obtain c where "c \<in> set rows" "DATE (c_created_at c) = d" by auto
    then have "filter (\<lambda>c. DATE (c_created_at c) = d) rows \<noteq> []"
      by (auto simp: filter_empty_conv)
    then show "1 \<le> length (filter (\<lambda>c. DATE (c_created_at c) = d) rows)"
      by (cases "filter (\<lambda>c. DATE (c_created_at c) = d) rows") simp_all
  qed
  then show ?thesis by (auto simp: group_by_date_def)
qed

lemma length_le_sum_list:
  "\<forall>n \<in> set counts. 1 \<le> n \<Longrightarrow> length counts \<le> sum_list (counts :: nat list)"
  by (induction counts) auto

lemma floor_half: "\<lfloor>(1::rat) / 2\<rfloor> = 0"
  by (rule floor_unique) simp_all

lemma rounded_average_empty: "rounded_average [] = 0"
  by (simp add: rounded_average_def js_mul_def js_div_def Math_round_def fl_def floor_half)

lemma rounded_average_bound:
  assumes ne: "counts \<noteq> []" and pos: "\<forall>n \<in> set counts. 1 \<le> n" and lt: "sum_list counts < 2 ^ 43"
  shows "\<exists>m :: int. rounded_average counts = fl (of_int m / 100)
           \<and> \<bar>(of_int m :: rat) / 100 - of_nat (sum_list counts) / of_nat (length counts)\<bar>
               \<le> 1 / 200"
proof -
  define s where "s = sum_list counts"
  define n where "n = length counts"
  have n1: "1 \<le> n" using ne by (cases counts) (simp_all add: n_def)
  have ns: "n \<le> s" unfolding n_def s_def by (rule length_le_sum_list [OF pos])
  have s43: "s < 2 ^ 43" using lt by (simp add: s_def)
  have "(2::nat) ^ 43 \<le> 2 ^ 53" by simp
  then have s53: "sum_list counts < 2 ^ 53" using lt by linarith
  define x where "x = (of_nat s :: rat) / of_nat n"
  define m where "m = \<lfloor>fl (fl x * 100) + 1 / 2\<rfloor>"
  have b: "\<bar>of_int m - 100 * x\<bar> \<le> 1 / 2"
    unfolding m_def x_def by (rule round_two_decimals [OF n1 ns s43])
  have "rounded_average counts = fl (of_int m / 100)"
    using ne
    by (simp add: rounded_average_def Let_def js_div_def js_mul_def Math_round_def
        reduce_sum_exact [OF s53] m_def x_def s_def n_def)
  moreover have "\<bar>of_int m / 100 - x\<bar> \<le> 1 / 200"
  proof -
    have "of_int m / 100 - x = (of_int m - 100 * x) / 100" by (simp add: field_simps)
    then have "\<bar>of_int m / 100 - x\<bar> = \<bar>(of_int m - 100 * x) / 100\<bar>" by (rule arg_cong)
    also have "\<dots> = \<bar>of_int m - 100 * x\<bar> / \<bar>100\<bar>" by (rule abs_divide)
    also have "\<dots> \<le> (1 / 2) / \<bar>100\<bar>" using b by (intro divide_right_mono) simp_all
    finally show ?thesis by simp
  qed
  ultimately show ?thesis by (auto simp: x_def s_def n_def)
qed

text \<open>
  What the range aggregate computes. For a start and an end date that are both given,
  hold no quote and do not read as numbers, and a store of fewer than \<open>2 ^ 43\<close>
  conversations, \<open>totalConversations\<close> is the number of conversation rows whose
  \<open>created_at\<close> lies between the two bounds in the order of text; the counts of the
  \<open>conversationsPerDay\<close> buckets add up to it. With no bucket \<open>avgConversationsPerDay\<close>
  is 0. Otherwise it is the double nearest to \<open>m / 100\<close> for an integer \<open>m\<close> with
  \<open>m / 100\<close> within 0.005 of the arithmetic mean of the bucket counts: the mean rounded
  to two decimal places (a mean exactly halfway between two such values may go to
  either).
\<close>

lemma getAnalytics_between:
  assumes "truthy_string startDate = Some s" and "truthy_string endDate = Some e"
    and "pasted_literal s = Some s" and "pasted_literal e = Some e"
    and "\<not> looks_numeric s" and "\<not> looks_numeric e"
    and "length (conversations db) < 2 ^ 43"
  shows "\<exists>a. getAnalytics DATE db startDate endDate = Some a
       \<and> totalConversations a
           = length (filter (\<lambda>c. s \<le> c_created_at c \<and> c_created_at c \<le> e) (conversations db))
       \<and> sum_list (map dc_count (conversationsPerDay a)) = totalConversations a
       \<and> (conversationsPerDay a = [] \<longrightarrow> avgConversationsPerDay a = 0)
       \<and> (conversationsPerDay a \<noteq> [] \<longrightarrow>
            (\<exists>m :: int.
               avgConversationsPerDay a = fl (of_int m / 100)
               \<and> \<bar>(of_int m :: rat) / 100
                   - of_nat (sum_list (map dc_count (conversationsPerDay a)))
                     / of_nat (length (conversationsPerDay a))\<bar>
                 \<le> 1 / 200))"
proof -
  define selected where
    "selected = filter (\<lambda>c. s \<le> c_created_at c \<and> c_created_at c \<le> e) (conversations db)"
  define rows where "rows = group_by_date DATE selected"
  define a where "a = analytics_queries DATE db (between (Text s) (Text e))"
  have f: "dateFilter startDate endDate = BETWEEN (Text s) (Text e)"
    by (simp add: dateFilter_def bound_def assms(1-6))
  have get: "getAnalytics DATE db startDate endDate = Some a"
    by (simp add: getAnalytics_def f a_def)
  have total: "totalConversations a = length selected"
    by (simp add: a_def analytics_queries_def Let_def between_def selected_def)
  have perday: "conversationsPerDay a = rows"
    by (simp add: a_def analytics_queries_def Let_def between_def selected_def rows_def)
  have avg: "avgConversationsPerDay a = rounded_average (map dc_count rows)"
    by (simp add: a_def analytics_queries_def Let_def between_def selected_def rows_def)
  have sum: "sum_list (map dc_count rows) = length selected"
    unfolding rows_def by (rule group_by_date_counts)
  have "length selected \<le> length (conversations db)"
    unfolding selected_def by (rule length_filter_le)
  then have lt: "sum_list (map dc_count rows) < 2 ^ 43"
    using assms(7) sum by simp
  have pos: "\<forall>n \<in> set (map dc_count rows). 1 \<le> n"
    unfolding rows_def by (rule group_by_date_positive)
  have nonempty: "rows \<noteq> [] \<longrightarrow>
      (\<exists>m :: int. rounded_average (map dc_count rows) = fl (of_int m / 100)
         \<and> \<bar>(of_int m :: rat) / 100 - of_nat (sum_list (map dc_count rows)) / of_nat (length rows)\<bar>
             \<le> 1 / 200)"
  proof
    assume "rows \<noteq> []"
    then have "map dc_count rows \<noteq> []" by simp
    from rounded_average_bound [OF this pos lt] show
      "\<exists>m :: int. rounded_average (map dc_count rows) = fl (of_int m / 100)
         \<and> \<bar>(of_int m :: rat) / 100 - of_nat (sum_list (map dc_count rows)) / of_nat (length rows)\<bar>
             \<le> 1 / 200"
      by simp
  qed
  have "totalConversations a
           = length (filter (\<lambda>c. s \<le> c_created_at c \<and> c_created_at c \<le> e) (conversations db))
       \<and> sum_list (map dc_count (conversationsPerDay a)) = totalConversations a
       \<and> (conversationsPerDay a = [] \<longrightarrow> avgConversationsPerDay a = 0)
       \<and> (conversationsPerDay a \<noteq> [] \<longrightarrow>
            (\<exists>m :: int.
               avgConversationsPerDay a = fl (of_int m / 100)
               \<and> \<bar>(of_int m :: rat) / 100
                   - of_nat (sum_list (map dc_count (conversationsPerDay a)))
                     / of_nat (length (conversationsPerDay a))\<bar>
                 \<le> 1 / 200))"
    unfolding total perday avg
    using sum nonempty by (auto simp: selected_def rounded_average_empty)
  then show ?thesis using get by blast
qed

lemma fl_numeral_1: "fl 1 = 1" "fl 100 = 100"
  using fl_of_int [of 1] fl_of_int [of 100] by simp_all

lemma rounded_average_one: "rounded_average [1] = 1"
proof -
  have "reduce_sum [1] = 1" using reduce_sum_exact [of "[1]"] by simp
  moreover have "\<lfloor>(100::rat) + 1 / 2\<rfloor> = 100" by (rule floor_unique) simp_all
  ultimately show ?thesis
    by (simp add: rounded_average_def js_div_def js_mul_def Math_round_def fl_numeral_1)
qed

lemma january_bounds:
  "dateFilter (Some ''2024-01-01'') (Some ''2024-01-31'')
     = BETWEEN (Text ''2024-01-01'') (Text ''2024-01-31'')"
  by (simp add: dateFilter_def truthy_string_def pasted_literal_def bound_def looks_numeric_def
      regex_test_def numericRegex_def optional_def OneOrMore_def sql_sign_def sql_space_def
      sql_digit_def)

lemma january_rows:
  "between (Text ''2024-01-01'') (Text ''2024-01-31'') ''2024-01-15 10:00:00''"
  "\<not> between (Text ''2024-01-01'') (Text ''2024-01-31'') ''2024-01-31 15:00:00''"
  by (simp_all add: between_def)

text \<open>
  Claim C4, at a range that ends on a day with a conversation. The store holds a
  conversation created on 15 January at 10:00 and one created on 31 January at 15:00, and
  the range is 2024-01-01 to 2024-01-31. Both rows fall within the inclusive bound, but
  the text '2024-01-31 15:00:00' lies after the text '2024-01-31', so the aggregate
  counts one conversation, in one bucket, with an average of 1.
\<close>

theorem analytics_range_end_day:
  "map c_created_at (conversations demo_january_db)
     = [''2024-01-15 10:00:00'', ''2024-01-31 15:00:00'']
   \<and> length (filter (spec_within_range demo_DATE ''2024-01-01'' ''2024-01-31'')
        (conversations demo_january_db)) = 2
   \<and> map_option totalConversations
        (getAnalytics demo_DATE demo_january_db (Some ''2024-01-01'') (Some ''2024-01-31''))
       = Some 1
   \<and> map_option conversationsPerDay
        (getAnalytics demo_DATE demo_january_db (Some ''2024-01-01'') (Some ''2024-01-31''))
       = Some [\<lparr>dc_date = Some ''2024-01-15'', dc_count = 1\<rparr>]
   \<and> map_option avgConversationsPerDay
        (getAnalytics demo_DATE demo_january_db (Some ''2024-01-01'') (Some ''2024-01-31''))
       = Some 1"
proof -
  have spec: "length (filter (spec_within_range demo_DATE ''2024-01-01'' ''2024-01-31'')
      (conversations demo_january_db)) = 2"
    by (simp add: spec_within_range_def demo_DATE_def demo_january_db_def)
  have rows: "conversationsPerDay
      (analytics_queries demo_DATE demo_january_db
         (between (Text ''2024-01-01'') (Text ''2024-01-31'')))
      = [\<lparr>dc_date = Some ''2024-01-15'', dc_count = 1\<rparr>]"
    by (simp add: analytics_queries_def Let_def demo_january_db_def january_rows
        group_by_date_def demo_DATE_def)
  have total: "totalConversations
      (analytics_queries demo_DATE demo_january_db
         (between (Text ''2024-01-01'') (Text ''2024-01-31''))) = 1"
    by (simp add: analytics_queries_def Let_def demo_january_db_def january_rows)
  have "avgConversationsPerDay
      (analytics_queries demo_DATE demo_january_db
         (between (Text ''2024-01-01'') (Text ''2024-01-31'')))
      = rounded_average (map dc_count (conversationsPerDay
          (analytics_queries demo_DATE demo_january_db
             (between (Text ''2024-01-01'') (Text ''2024-01-31'')))))"
    by (simp add: analytics_queries_def Let_def)
  then have avg: "avgConversationsPerDay
      (analytics_queries demo_DATE demo_january_db
         (between (Text ''2024-01-01'') (Text ''2024-01-31''))) = 1"
    by (simp only: rows list.map DayCount.simps rounded_average_one)
  show ?thesis
    using spec rows total avg
    by (simp add: getAnalytics_def january_bounds) (simp add: demo_january_db_def)
qed

end
